theory Spec2Isabelle
  imports Complex_Main "HOL-Library.Word" "HOL-Library.Log_Nat"
begin

section \<open>C arithmetic used by \<^verbatim>\<open>clustering.c\<close>\<close>

subsection \<open>Values of \<^verbatim>\<open>float\<close> and \<^verbatim>\<open>double\<close>\<close>

text \<open>
  The distances of \<^verbatim>\<open>clustering.c\<close> are C \<^verbatim>\<open>float\<close>s, the Euclidean sum a
  \<^verbatim>\<open>double\<close>. Both are modelled by one type of values: a finite value (an exact
  rational), the two infinities and NaN. The operations below are those of IEEE 754
  binary32 and binary64 in the default rounding mode (round to nearest, ties to even),
  each expression evaluated in the precision of its C type (\<^verbatim>\<open>FLT_EVAL_METHOD\<close> 0, as
  with SSE arithmetic on x86-64). The sign of zero is not
  represented: no operation of this file (subtraction, multiplication, addition, square
  root, comparison) lets it reach a result that is compared or stored.
\<close>

datatype cfloat = Finite rat | PlusInf | MinusInf | NaN

text \<open>\<open>pow2 k\<close> is \<open>2\<close> to the power \<open>k\<close>, for an integer \<open>k\<close>.\<close>

definition pow2 :: "int \<Rightarrow> rat" where
  "pow2 k = (if 0 \<le> k then 2 ^ nat k else 1 / 2 ^ nat (- k))"

text \<open>
  \<open>ilog2 x\<close> is the binary exponent of a positive rational: \<open>pow2 (ilog2 x) \<le> x < pow2 (ilog2 x + 1)\<close>.
  It is read off the bit lengths of numerator and denominator (\<open>bitlen\<close> of
  \<open>HOL-Library.Log_Nat\<close>) and adjusted by one comparison.
\<close>

definition ilog2 :: "rat \<Rightarrow> int" where
  "ilog2 x =
     (let a = fst (quotient_of x); b = snd (quotient_of x);
          k = bitlen a - bitlen b
      in if pow2 k \<le> x then k else k - 1)"

definition round_half_even :: "rat \<Rightarrow> int" where
  "round_half_even y =
     (let f = \<lfloor>y\<rfloor>; r = y - of_int f
      in if r < 1 / 2 then f
         else if 1 / 2 < r then f + 1
         else if even f then f else f + 1)"

text \<open>
  Rounding an exact result to a binary format of precision \<open>p\<close> bits and largest
  exponent \<open>emax\<close> (smallest normal exponent \<open>1 - emax\<close>): the quantum is
  \<open>pow2 (e - (p - 1))\<close> for a value of exponent \<open>e\<close>, and that of the smallest normal
  exponent for subnormal values; a result that rounds beyond the largest finite value
  becomes an infinity.
\<close>

definition round_to :: "nat \<Rightarrow> int \<Rightarrow> rat \<Rightarrow> cfloat" where
  "round_to p emax x =
     (if x = 0 then Finite 0
      else let e = ilog2 \<bar>x\<bar>;
               q = pow2 (max e (1 - emax) - (int p - 1));
               r = of_int (round_half_even (\<bar>x\<bar> / q)) * q
           in if r \<noteq> 0 \<and> emax < ilog2 r then (if 0 < x then PlusInf else MinusInf)
              else Finite (sgn x * r))"

definition round_float :: "rat \<Rightarrow> cfloat" where
  "round_float = round_to 24 127"

definition round_double :: "rat \<Rightarrow> cfloat" where
  "round_double = round_to 53 1023"

text \<open>\<^verbatim>\<open>FLT_MAX\<close> of \<^verbatim>\<open><float.h>\<close>: the largest finite binary32 value.\<close>

definition FLT_MAX :: cfloat where
  "FLT_MAX = Finite ((2 ^ 24 - 1) * 2 ^ 104)"

text \<open>The comparison \<^verbatim>\<open>x < y\<close>: false as soon as an operand is NaN.\<close>

fun flt :: "cfloat \<Rightarrow> cfloat \<Rightarrow> bool" where
  "flt NaN y = False"
| "flt x NaN = False"
| "flt (Finite x) (Finite y) = (x < y)"
| "flt (Finite x) PlusInf = True"
| "flt MinusInf (Finite y) = True"
| "flt MinusInf PlusInf = True"
| "flt x y = False"

text \<open>\<^verbatim>\<open>x - y\<close> and \<^verbatim>\<open>x * y\<close> on \<^verbatim>\<open>float\<close> operands.\<close>

fun fsub :: "cfloat \<Rightarrow> cfloat \<Rightarrow> cfloat" where
  "fsub NaN y = NaN"
| "fsub x NaN = NaN"
| "fsub PlusInf PlusInf = NaN"
| "fsub MinusInf MinusInf = NaN"
| "fsub PlusInf y = PlusInf"
| "fsub MinusInf y = MinusInf"
| "fsub (Finite x) PlusInf = MinusInf"
| "fsub (Finite x) MinusInf = PlusInf"
| "fsub (Finite x) (Finite y) = round_float (x - y)"

fun fneg :: "cfloat \<Rightarrow> cfloat" where
  "fneg NaN = NaN"
| "fneg PlusInf = MinusInf"
| "fneg MinusInf = PlusInf"
| "fneg (Finite x) = Finite (- x)"

fun fmul :: "cfloat \<Rightarrow> cfloat \<Rightarrow> cfloat" where
  "fmul NaN y = NaN"
| "fmul x NaN = NaN"
| "fmul (Finite x) (Finite y) = round_float (x * y)"
| "fmul (Finite x) y = (if x = 0 then NaN else if 0 < x then y else fneg y)"
| "fmul x (Finite y) = (if y = 0 then NaN else if 0 < y then x else fneg x)"
| "fmul PlusInf y = y"
| "fmul MinusInf y = fneg y"

text \<open>The conversion of a \<^verbatim>\<open>float\<close> to \<^verbatim>\<open>double\<close> is exact; \<^verbatim>\<open>double\<close> addition.\<close>

definition f2d :: "cfloat \<Rightarrow> cfloat" where
  "f2d x = x"

fun dadd :: "cfloat \<Rightarrow> cfloat \<Rightarrow> cfloat" where
  "dadd NaN y = NaN"
| "dadd x NaN = NaN"
| "dadd PlusInf MinusInf = NaN"
| "dadd MinusInf PlusInf = NaN"
| "dadd PlusInf y = PlusInf"
| "dadd MinusInf y = MinusInf"
| "dadd (Finite x) PlusInf = PlusInf"
| "dadd (Finite x) MinusInf = MinusInf"
| "dadd (Finite x) (Finite y) = round_double (x + y)"

text \<open>The integer square root, rounded down.\<close>

function isqrt :: "int \<Rightarrow> int" where
  "isqrt n =
     (if n < 2 then max n 0
      else let r = 2 * isqrt (n div 4)
           in if (r + 1) * (r + 1) \<le> n then r + 1 else r)"
  by pat_completeness auto
termination
  by (relation "measure nat") auto

declare isqrt.simps [simp del]

text \<open>
  \<^verbatim>\<open>sqrt\<close> of \<^verbatim>\<open><math.h>\<close> on a \<^verbatim>\<open>double\<close>, correctly rounded as IEEE 754
  requires: for a positive \<open>x\<close> of exponent \<open>e\<close> the root has exponent \<open>e div 2\<close>;
  with \<open>q\<close> the quantum at that exponent and \<open>n\<close> the integer part of \<open>sqrt x / q\<close>,
  the root is rounded up exactly when \<open>x / q\<^sup>2\<close> lies above \<open>(n + 1/2)\<^sup>2\<close>.
\<close>

definition sqrt_to :: "nat \<Rightarrow> int \<Rightarrow> rat \<Rightarrow> cfloat" where
  "sqrt_to p emax x =
     (if x = 0 then Finite 0
      else let k = ilog2 x div 2;
               q = pow2 (max k (1 - emax) - (int p - 1));
               y = x / (q * q);
               n = isqrt \<lfloor>y\<rfloor>;
               h = (of_int n + 1 / 2) * (of_int n + 1 / 2);
               r = (if y < h then n else if h < y then n + 1
                    else if even n then n else n + 1)
           in Finite (of_int r * q))"

fun dsqrt :: "cfloat \<Rightarrow> cfloat" where
  "dsqrt NaN = NaN"
| "dsqrt PlusInf = PlusInf"
| "dsqrt MinusInf = NaN"
| "dsqrt (Finite x) = (if x < 0 then NaN else sqrt_to 53 1023 x)"

text \<open>The conversion of a \<^verbatim>\<open>double\<close> to \<^verbatim>\<open>float\<close> (the \<^verbatim>\<open>return\<close> of a \<^verbatim>\<open>double\<close>
  from a function of type \<^verbatim>\<open>float\<close>).\<close>

fun d2f :: "cfloat \<Rightarrow> cfloat" where
  "d2f (Finite x) = round_float x"
| "d2f x = x"


section \<open>Memory\<close>

text \<open>
  A \<^verbatim>\<open>float*\<close> is an index into the memory of \<^verbatim>\<open>float\<close> cells, counted in units of
  \<^verbatim>\<open>sizeof(float)\<close>; \<^verbatim>\<open>NULL\<close> is 0 and \<^verbatim>\<open>p[k]\<close> is the cell \<open>p + k\<close>. The output
  array \<^verbatim>\<open>dtraj\<close> of \<^verbatim>\<open>npy_int32\<close> is a memory of its own, indexed from its first
  element; its elements are 32-bit words, read as signed by \<open>sint\<close>.
\<close>

type_synonym ptr = nat

type_synonym fmem = "ptr \<Rightarrow> cfloat"

definition NULL :: ptr where
  "NULL = 0"

text \<open>\<^verbatim>\<open>memcpy(dst, src, n*sizeof(float))\<close>, for ranges that do not overlap (as \<^verbatim>\<open>memcpy\<close>
  requires).\<close>

definition memcpy :: "fmem \<Rightarrow> ptr \<Rightarrow> ptr \<Rightarrow> nat \<Rightarrow> fmem" where
  "memcpy m dst src n = (\<lambda>p. if dst \<le> p \<and> p < dst + n then m (src + (p - dst)) else m p)"

text \<open>The \<open>n\<close> cells from \<open>p\<close> on, as a list, and a list written back from \<open>p\<close> on.\<close>

definition load :: "fmem \<Rightarrow> ptr \<Rightarrow> nat \<Rightarrow> cfloat list" where
  "load m p n = map (\<lambda>k. m (p + k)) [0..<n]"

definition store :: "fmem \<Rightarrow> ptr \<Rightarrow> cfloat list \<Rightarrow> fmem" where
  "store m p xs = (\<lambda>q. if p \<le> q \<and> q < p + length xs then xs ! (q - p) else m q)"

section \<open>The metrics\<close>

subsection \<open>\<^verbatim>\<open>euclidean_distance\<close>\<close>

text \<open>
  The loop of \<^verbatim>\<open>euclidean_distance\<close>, from \<open>i\<close> on: the difference and its square are
  \<^verbatim>\<open>float\<close> expressions, the square is converted to \<^verbatim>\<open>double\<close> and added to \<^verbatim>\<open>sum\<close>
  (the argument \<open>s\<close>).
\<close>

function euclidean_loop :: "fmem \<Rightarrow> ptr \<Rightarrow> ptr \<Rightarrow> nat \<Rightarrow> nat \<Rightarrow> cfloat \<Rightarrow> cfloat" where
  "euclidean_loop m a b n i s =
     (if i < n
      then euclidean_loop m a b n (i + 1)
             (dadd s (f2d (fmul (fsub (m (a + i)) (m (b + i))) (fsub (m (a + i)) (m (b + i))))))
      else s)"
  by pat_completeness auto
termination
  by (relation "measure (\<lambda>(m, a, b, n, i, s). n - i)") auto

declare euclidean_loop.simps [simp del]

text \<open>
  A distance function takes the memory and the arguments \<open>a\<close>, \<open>b\<close>, \<open>n\<close>,
  \<open>buffer_a\<close>, \<open>buffer_b\<close>, and returns the distance and the memory it leaves.
  \<^verbatim>\<open>euclidean_distance\<close> ignores its buffers and writes nothing.
\<close>

type_synonym distance_fn = "fmem \<Rightarrow> ptr \<Rightarrow> ptr \<Rightarrow> nat \<Rightarrow> ptr \<Rightarrow> ptr \<Rightarrow> cfloat \<times> fmem"

definition euclidean_distance :: distance_fn where
  "euclidean_distance m a b n buffer_a buffer_b =
     (d2f (dsqrt (euclidean_loop m a b n 0 (Finite 0))), m)"

text \<open>
  The Euclidean distance in the words of the specification, on two vectors: the square
  root of the sum, accumulated in double precision, of the squared differences of the
  components, narrowed to \<^verbatim>\<open>float\<close>.
\<close>

definition sum_double :: "cfloat list \<Rightarrow> cfloat" where
  "sum_double xs = foldl dadd (Finite 0) xs"

definition spec_euclidean :: "cfloat list \<Rightarrow> cfloat list \<Rightarrow> cfloat" where
  "spec_euclidean xs ys =
     d2f (dsqrt (sum_double (map (\<lambda>(x, y). f2d (fmul (fsub x y) (fsub x y))) (zip xs ys))))"

subsection \<open>\<^verbatim>\<open>minRMSD_distance\<close>\<close>

text \<open>
  The two primitives of the geometry library that \<^verbatim>\<open>minRMSD_distance\<close> calls are not part
  of \<^verbatim>\<open>clustering.c\<close>; they are parameters of the model.
  \<^item> \<open>center_and_trace n_atoms xs\<close> stands for
    \<^verbatim>\<open>inplace_center_and_trace_atom_major(coords, &trace, 1, n_atoms)\<close> on the
    \<open>3 * n_atoms\<close> coordinates \<open>xs\<close>: it gives the coordinates it leaves in place and the
    trace it stores.
  \<^item> \<open>msd_atom_major n n' xs ys G_a G_b\<close> stands for
    \<^verbatim>\<open>msd_atom_major(n, n', a, b, G_a, G_b, 0, NULL)\<close> on the coordinates \<open>xs\<close> and
    \<open>ys\<close>, which it only reads.

  The pointers of \<^verbatim>\<open>minRMSD_distance\<close> are declared \<^verbatim>\<open>SKP_restrict\<close>; that the buffers
  overlap neither each other nor the arguments is a hypothesis where it is needed.
\<close>

record geometry =
  center_and_trace :: "nat \<Rightarrow> cfloat list \<Rightarrow> cfloat list \<times> cfloat"
  msd_atom_major :: "nat \<Rightarrow> nat \<Rightarrow> cfloat list \<Rightarrow> cfloat list \<Rightarrow> cfloat \<Rightarrow> cfloat \<Rightarrow> cfloat"

text \<open>The call \<^verbatim>\<open>inplace_center_and_trace_atom_major(p, &trace, 1, n_atoms)\<close>: the memory
  it leaves and the trace.\<close>

definition inplace_center_and_trace_atom_major ::
  "geometry \<Rightarrow> fmem \<Rightarrow> ptr \<Rightarrow> nat \<Rightarrow> fmem \<times> cfloat" where
  "inplace_center_and_trace_atom_major g m p n_atoms =
     (let r = center_and_trace g n_atoms (load m p (3 * n_atoms))
      in (store m p (take (3 * n_atoms) (fst r)), snd r))"

definition minRMSD_distance :: "geometry \<Rightarrow> distance_fn" where
  "minRMSD_distance g m a b n buffer_a buffer_b =
     (let m1 = memcpy m buffer_a a n;
          m2 = memcpy m1 buffer_b b n;
          ca = inplace_center_and_trace_atom_major g m2 buffer_a (n div 3);
          trace_a = snd ca;
          cb = inplace_center_and_trace_atom_major g (fst ca) buffer_b (n div 3);
          trace_b = snd cb;
          m4 = fst cb;
          msd = msd_atom_major g (n div 3) (n div 3)
                  (load m4 buffer_a (3 * (n div 3))) (load m4 buffer_b (3 * (n div 3)))
                  trace_a trace_b
      in (d2f (dsqrt (f2d msd)), m4))"

text \<open>
  The two halves of \<^verbatim>\<open>minRMSD_distance\<close>, for executions in which another thread runs
  between them: the two calls of \<^verbatim>\<open>memcpy\<close>, and the rest, which works on the buffers
  only.
\<close>

definition minRMSD_copy :: "fmem \<Rightarrow> ptr \<Rightarrow> ptr \<Rightarrow> nat \<Rightarrow> ptr \<Rightarrow> ptr \<Rightarrow> fmem" where
  "minRMSD_copy m a b n buffer_a buffer_b = memcpy (memcpy m buffer_a a n) buffer_b b n"

definition minRMSD_compute :: "geometry \<Rightarrow> fmem \<Rightarrow> nat \<Rightarrow> ptr \<Rightarrow> ptr \<Rightarrow> cfloat \<times> fmem" where
  "minRMSD_compute g m2 n buffer_a buffer_b =
     (let ca = inplace_center_and_trace_atom_major g m2 buffer_a (n div 3);
          trace_a = snd ca;
          cb = inplace_center_and_trace_atom_major g (fst ca) buffer_b (n div 3);
          trace_b = snd cb;
          m4 = fst cb;
          msd = msd_atom_major g (n div 3) (n div 3)
                  (load m4 buffer_a (3 * (n div 3))) (load m4 buffer_b (3 * (n div 3)))
                  trace_a trace_b
      in (d2f (dsqrt (f2d msd)), m4))"

section \<open>\<^verbatim>\<open>c_assign\<close>\<close>

text \<open>
  Modelled from the spec: the return codes. They are macros of \<^verbatim>\<open>clustering.h\<close>, which
  is not among the sources; the specification has success and the two error kinds
  InvalidMetric and OutOfMemory. Only that they are three different values matters here.
\<close>

datatype ret_code = ASSIGN_SUCCESS | ASSIGN_ERR_NO_MEMORY | ASSIGN_ERR_INVALID_METRIC

text \<open>
  The state \<^verbatim>\<open>c_assign\<close> works on: the \<^verbatim>\<open>float\<close> memory, the output array, the blocks
  of the heap that are allocated and not yet freed (by their addresses), and what the
  next calls of \<^verbatim>\<open>malloc\<close> will return, in order (\<open>NULL\<close>, or nothing left, for a call
  that fails). The last component makes the allocator's answers an input of the model.
  The size asked for, \<^verbatim>\<open>dim*sizeof(float)\<close>, does not enter \<open>malloc\<close>: where the extent
  of a block matters, it is a hypothesis (\<open>scratch_separate\<close> below).
\<close>

record cstate =
  fmem_of :: fmem
  dtraj :: "nat \<Rightarrow> 32 word"
  live :: "ptr set"
  mallocs :: "ptr list"

definition malloc :: "cstate \<Rightarrow> ptr \<times> cstate" where
  "malloc st =
     (case mallocs st of
        [] \<Rightarrow> (NULL, st)
      | p # ps \<Rightarrow> (p, st\<lparr>live := (if p = NULL then live st else insert p (live st)), mallocs := ps\<rparr>))"

definition free :: "ptr \<Rightarrow> cstate \<Rightarrow> cstate" where
  "free p st = (if p = NULL then st else st\<lparr>live := live st - {p}\<rparr>)"

text \<open>
  The loop over the centers for one frame, from center \<open>j\<close> on, with the current
  \<^verbatim>\<open>mindist\<close> and \<^verbatim>\<open>argmin\<close>. \<^verbatim>\<open>argmin\<close> is a \<^verbatim>\<open>size_t\<close> (64 bits); the loop counter
  is a non-negative \<^verbatim>\<open>int\<close>, converted to \<^verbatim>\<open>size_t\<close> by the assignment. \<open>frame\<close> is
  \<^verbatim>\<open>&chunk[i*dim]\<close>; the parameter \<^verbatim>\<open>dim\<close> is written \<open>ndim\<close>.

  The counters \<^verbatim>\<open>i\<close> and \<^verbatim>\<open>j\<close> are \<^verbatim>\<open>int\<close>s (32 bits) compared with the
  \<^verbatim>\<open>Py_ssize_t\<close> bounds \<^verbatim>\<open>N_frames\<close> and \<^verbatim>\<open>N_centers\<close>. The model counts in \<open>nat\<close>:
  it is the code for \<open>N_frames < 2\<^sup>3\<^sup>1\<close> and \<open>N_centers < 2\<^sup>3\<^sup>1\<close>. From there on
  \<^verbatim>\<open>++i\<close> or \<^verbatim>\<open>++j\<close> overflows before the loop ends, which C leaves undefined, and
  the theorems about what the loops write assume both bounds.
\<close>

function scan_centers ::
  "distance_fn \<Rightarrow> ptr \<Rightarrow> ptr \<Rightarrow> nat \<Rightarrow> ptr \<Rightarrow> ptr \<Rightarrow> nat \<Rightarrow> nat \<Rightarrow> cfloat \<Rightarrow> 64 word \<Rightarrow> fmem
     \<Rightarrow> 64 word \<times> fmem" where
  "scan_centers distance frame centers ndim buffer_a buffer_b N_centers j mindist argmin m =
     (if j < N_centers
      then let r = distance m frame (centers + j * ndim) ndim buffer_a buffer_b;
               d = fst r
           in if flt d mindist
              then scan_centers distance frame centers ndim buffer_a buffer_b N_centers (j + 1)
                     d (of_nat j) (snd r)
              else scan_centers distance frame centers ndim buffer_a buffer_b N_centers (j + 1)
                     mindist argmin (snd r)
      else (argmin, m))"
  by pat_completeness auto
termination
  by (relation "measure (\<lambda>(distance, frame, centers, ndim, ba, bb, N_centers, j, mindist, argmin, m).
        N_centers - j)") auto

declare scan_centers.simps [simp del]

text \<open>
  The body of the loop over the frames, for frame \<open>i\<close>: \<^verbatim>\<open>mindist = FLT_MAX\<close>,
  \<^verbatim>\<open>argmin = -1\<close> (the largest \<^verbatim>\<open>size_t\<close>), the scan, and \<^verbatim>\<open>dtraj[i] = argmin\<close>, which
  keeps the low 32 bits.
\<close>

definition assign_frame ::
  "distance_fn \<Rightarrow> ptr \<Rightarrow> ptr \<Rightarrow> nat \<Rightarrow> ptr \<Rightarrow> ptr \<Rightarrow> nat \<Rightarrow> nat \<Rightarrow> cstate \<Rightarrow> cstate" where
  "assign_frame distance chunk centers ndim buffer_a buffer_b N_centers i st =
     (let r = scan_centers distance (chunk + i * ndim) centers ndim buffer_a buffer_b N_centers 0
                FLT_MAX (- 1) (fmem_of st)
      in st\<lparr>fmem_of := snd r, dtraj := (dtraj st)(i := ucast (fst r))\<rparr>)"

text \<open>
  \<^verbatim>\<open>#pragma omp for schedule(static, 10)\<close>: the iterations \<open>0 ..< N_frames\<close> are cut
  into blocks of 10, dealt to the threads in turn; thread \<open>t\<close> of \<open>n_threads\<close> runs the
  iterations below, in increasing order. The iterations are those of the \<^verbatim>\<open>int\<close>
  counter \<^verbatim>\<open>i\<close> for \<open>N_frames < 2\<^sup>3\<^sup>1\<close> (see above).
\<close>

definition iterations_of_thread :: "nat \<Rightarrow> nat \<Rightarrow> nat \<Rightarrow> nat list" where
  "iterations_of_thread n_threads N_frames t =
     filter (\<lambda>i. (i div 10) mod n_threads = t) [0..<N_frames]"

definition run_thread ::
  "distance_fn \<Rightarrow> ptr \<Rightarrow> ptr \<Rightarrow> nat \<Rightarrow> ptr \<Rightarrow> ptr \<Rightarrow> nat \<Rightarrow> nat list \<Rightarrow> cstate \<Rightarrow> cstate" where
  "run_thread distance chunk centers ndim buffer_a buffer_b N_centers frames st =
     fold (assign_frame distance chunk centers ndim buffer_a buffer_b N_centers) frames st"

text \<open>
  The parallel region. \<^verbatim>\<open>i\<close>, \<^verbatim>\<open>j\<close>, \<^verbatim>\<open>argmin\<close>, \<^verbatim>\<open>mindist\<close> and \<^verbatim>\<open>d\<close> are private to
  a thread; \<^verbatim>\<open>distance\<close>, \<^verbatim>\<open>buffer_a\<close> and \<^verbatim>\<open>buffer_b\<close> are shared, so every thread
  hands the same two buffers to \<^verbatim>\<open>distance\<close>. The model runs the threads one after the
  other. That covers every execution in which no two calls of \<^verbatim>\<open>distance\<close> that write
  the same cells overlap in time: all executions under \<^verbatim>\<open>euclidean_distance\<close>, which
  writes nothing, and under \<^verbatim>\<open>minRMSD_distance\<close> those of one thread. The runtime is
  taken to grant the \<open>n_threads\<close> threads asked for; the \<^verbatim>\<open>printf\<close> and the
  \<^verbatim>\<open>assert\<close> at the head of the region have no part in the result.
\<close>

definition parallel_region ::
  "distance_fn \<Rightarrow> ptr \<Rightarrow> ptr \<Rightarrow> nat \<Rightarrow> ptr \<Rightarrow> ptr \<Rightarrow> nat \<Rightarrow> nat \<Rightarrow> nat \<Rightarrow> cstate \<Rightarrow> cstate" where
  "parallel_region distance chunk centers ndim buffer_a buffer_b N_frames N_centers n_threads st =
     fold (\<lambda>t. run_thread distance chunk centers ndim buffer_a buffer_b N_centers
                  (iterations_of_thread n_threads N_frames t))
          [0..<n_threads] st"

text \<open>
  \<^verbatim>\<open>c_assign(chunk, centers, dtraj, metric, N_frames, N_centers, dim, n_threads)\<close>; the
  array \<^verbatim>\<open>dtraj\<close> is the component of the state. \<^verbatim>\<open>strcmp(metric, s) == 0\<close> is equality
  of strings.
\<close>

definition c_assign ::
  "geometry \<Rightarrow> ptr \<Rightarrow> ptr \<Rightarrow> string \<Rightarrow> nat \<Rightarrow> nat \<Rightarrow> nat \<Rightarrow> nat \<Rightarrow> cstate \<Rightarrow> ret_code \<times> cstate" where
  "c_assign g chunk centers metric N_frames N_centers ndim n_threads st =
     (if metric = ''euclidean''
      then let st' = parallel_region euclidean_distance chunk centers ndim NULL NULL
                       N_frames N_centers n_threads st
           in (ASSIGN_SUCCESS, free NULL (free NULL st'))
      else if metric = ''minRMSD''
      then let ma = malloc st;
               buffer_a = fst ma;
               mb = malloc (snd ma);
               buffer_b = fst mb
           in if buffer_a = NULL \<or> buffer_b = NULL
              then (ASSIGN_ERR_NO_MEMORY, free buffer_b (free buffer_a (snd mb)))
              else let st' = parallel_region (minRMSD_distance g) chunk centers ndim
                               buffer_a buffer_b N_frames N_centers n_threads (snd mb)
                   in (ASSIGN_SUCCESS, free buffer_b (free buffer_a st'))
      else (ASSIGN_ERR_INVALID_METRIC, free NULL (free NULL st)))"

section \<open>Vocabulary of the properties\<close>

text \<open>
  What the scan over the centers has established after the centers below \<open>j\<close>, for the
  distances \<open>D 0, D 1, \<dots>\<close> of one frame: either no distance so far was below
  \<^verbatim>\<open>FLT_MAX\<close> and \<^verbatim>\<open>argmin\<close> is still \<open>-1\<close>, or \<^verbatim>\<open>argmin\<close> is a center \<open>a\<close> below
  \<open>j\<close> whose distance is \<^verbatim>\<open>mindist\<close>, no center below \<open>j\<close> is nearer, and no center
  before \<open>a\<close> is at the same distance.
\<close>

definition best_so_far :: "(nat \<Rightarrow> cfloat) \<Rightarrow> nat \<Rightarrow> cfloat \<Rightarrow> 64 word \<Rightarrow> bool" where
  "best_so_far D j mindist argmin =
     ((argmin = - 1 \<and> mindist = FLT_MAX \<and> (\<forall>k<j. \<not> flt (D k) FLT_MAX)) \<or>
      (\<exists>a<j. argmin = of_nat a \<and> mindist = D a \<and> flt (D a) FLT_MAX \<and>
             (\<forall>k<j. \<not> flt (D k) (D a)) \<and> (\<forall>k<a. D k \<noteq> D a)))"



text \<open>The value the engine stores for a frame with distances \<open>D\<close> to the \<open>N\<close> centers.\<close>

definition written :: "(nat \<Rightarrow> cfloat) \<Rightarrow> nat \<Rightarrow> 32 word \<Rightarrow> bool" where
  "written D N v = (\<exists>md r. best_so_far D N md r \<and> v = ucast r)"

text \<open>Two blocks of cells, \<open>n\<close> from \<open>p\<close> and \<open>k\<close> from \<open>q\<close>, that do not overlap.\<close>

definition separate :: "ptr \<Rightarrow> nat \<Rightarrow> ptr \<Rightarrow> nat \<Rightarrow> bool" where
  "separate p n q k = (p + n \<le> q \<or> q + k \<le> p)"

text \<open>
  \<^verbatim>\<open>minRMSD_distance\<close> on the contents of its two arguments: \<open>patch xs ys\<close> is \<open>ys\<close>
  overwritten from its start by \<open>xs\<close>, \<open>centered g n xs\<close> what the centering leaves in
  a buffer that held \<open>xs\<close>.
\<close>

definition patch :: "cfloat list \<Rightarrow> cfloat list \<Rightarrow> cfloat list" where
  "patch xs ys = map (\<lambda>i. if i < length xs then xs ! i else ys ! i) [0..<length ys]"

definition centered :: "geometry \<Rightarrow> nat \<Rightarrow> cfloat list \<Rightarrow> cfloat list" where
  "centered g n xs =
     patch (take (3 * (n div 3)) (fst (center_and_trace g (n div 3) (take (3 * (n div 3)) xs))))
           (take (3 * (n div 3)) xs)"

definition minRMSD_of :: "geometry \<Rightarrow> nat \<Rightarrow> cfloat list \<Rightarrow> cfloat list \<Rightarrow> cfloat" where
  "minRMSD_of g n xs ys =
     d2f (dsqrt (f2d (msd_atom_major g (n div 3) (n div 3) (centered g n xs) (centered g n ys)
        (snd (center_and_trace g (n div 3) (take (3 * (n div 3)) xs)))
        (snd (center_and_trace g (n div 3) (take (3 * (n div 3)) ys))))))"

text \<open>
  The Least-RMSD distance in the words of the specification, on two vectors of \<open>n\<close>
  components: each is translated to its centroid, with the trace recorded; the minimal
  mean squared deviation of the two centered point sets of \<open>n div 3\<close> atoms is computed;
  the result is its square root.
\<close>

definition spec_minRMSD :: "geometry \<Rightarrow> cfloat list \<Rightarrow> cfloat list \<Rightarrow> cfloat" where
  "spec_minRMSD g xs ys =
     (let n = length xs;
          ca = center_and_trace g (n div 3) xs;
          cb = center_and_trace g (n div 3) ys;
          msd = msd_atom_major g (n div 3) (n div 3) (fst ca) (fst cb) (snd ca) (snd cb)
      in d2f (dsqrt (f2d msd)))"

text \<open>
  The blocks that the two calls of \<^verbatim>\<open>malloc\<close> in \<^verbatim>\<open>c_assign\<close> return overlap neither
  each other nor the arrays \<^verbatim>\<open>chunk\<close> and \<^verbatim>\<open>centers\<close> (a property of \<^verbatim>\<open>malloc\<close>).
\<close>

definition scratch_separate :: "ptr \<Rightarrow> ptr \<Rightarrow> nat \<Rightarrow> nat \<Rightarrow> nat \<Rightarrow> cstate \<Rightarrow> bool" where
  "scratch_separate chunk centers N_frames N_centers ndim st =
     (let buffer_a = fst (malloc st); buffer_b = fst (malloc (snd (malloc st)))
      in separate buffer_a ndim buffer_b ndim \<and>
         separate buffer_a ndim chunk (N_frames * ndim) \<and>
         separate buffer_a ndim centers (N_centers * ndim) \<and>
         separate buffer_b ndim chunk (N_frames * ndim) \<and>
         separate buffer_b ndim centers (N_centers * ndim))"

text \<open>
  The distance that the metric named \<open>metric\<close> returns for frame \<open>i\<close> and center \<open>j\<close>
  on the memory \<^verbatim>\<open>c_assign\<close> is called with.
\<close>

definition frame_distance ::
  "geometry \<Rightarrow> string \<Rightarrow> cstate \<Rightarrow> ptr \<Rightarrow> ptr \<Rightarrow> nat \<Rightarrow> nat \<Rightarrow> nat \<Rightarrow> cfloat" where
  "frame_distance g metric st chunk centers ndim i j =
     (if metric = ''euclidean''
      then fst (euclidean_distance (fmem_of st) (chunk + i * ndim) (centers + j * ndim) ndim NULL NULL)
      else fst (minRMSD_distance g (fmem_of st) (chunk + i * ndim) (centers + j * ndim) ndim
                  (fst (malloc st)) (fst (malloc (snd (malloc st))))))"

text \<open>
  For closed examples: a geometry whose centering leaves the coordinates as they are, with
  trace 0, and whose deviation is 0 for equal coordinates and 4 otherwise (no call under
  the Euclidean metric reaches it); and
  the state of a call with the frames \<open>fs\<close> stored at \<open>chunk\<close>, the centers \<open>cs\<close> at
  \<open>centers\<close>, every element of the output array 99, an empty heap and the answers
  \<open>ms\<close> of the allocator.
\<close>

definition still_geometry :: geometry where
  "still_geometry =
     \<lparr>center_and_trace = (\<lambda>n xs. (xs, Finite 0)),
      msd_atom_major = (\<lambda>n n' xs ys G_a G_b. if xs = ys then Finite 0 else Finite 4)\<rparr>"

definition call_state :: "ptr \<Rightarrow> cfloat list \<Rightarrow> ptr \<Rightarrow> cfloat list \<Rightarrow> ptr list \<Rightarrow> cstate" where
  "call_state chunk fs centers cs ms =
     \<lparr>fmem_of = store (store (\<lambda>p. Finite 0) chunk fs) centers cs,
      dtraj = (\<lambda>i. 99), live = {}, mallocs = ms\<rparr>"

section \<open>Properties\<close>

subsection \<open>The comparison\<close>

lemma flt_irrefl: "\<not> flt x x"
  by (cases x) simp_all

lemma flt_trans: "flt x y \<Longrightarrow> flt y z \<Longrightarrow> flt x z"
  by (cases x; cases y; cases z) simp_all

lemma flt_not_NaN: "flt x y \<Longrightarrow> x \<noteq> NaN \<and> y \<noteq> NaN"
  by (cases x; cases y) simp_all

lemma flt_total: "flt x m \<Longrightarrow> flt y m \<Longrightarrow> \<not> flt x y \<Longrightarrow> \<not> flt y x \<Longrightarrow> x = y"
  by (cases x; cases y; cases m) simp_all

subsection \<open>The arithmetic on known values\<close>

text \<open>
  The rounding, the square root and the overflow on values whose binary32 and binary64
  results are known: 0.1 as a \<^verbatim>\<open>float\<close>, the \<^verbatim>\<open>double\<close> square root of 2, the tie at
  \<open>2\<^sup>2\<^sup>4 + 1\<close>, the smallest subnormal, and the first value that rounds to infinity.
\<close>

lemma arithmetic_examples:
  "round_float (1 / 10) = Finite (13421773 / 134217728)"
  "dsqrt (Finite 2) = Finite (6369051672525773 / 4503599627370496)"
  "d2f (dsqrt (Finite 2)) = Finite (11863283 / 8388608)"
  "round_float 16777217 = Finite 16777216"
  "round_float 16777219 = Finite 16777220"
  "round_float (pow2 (- 149) * 3 / 4) = Finite (pow2 (- 149))"
  "round_float (pow2 (- 149) / 2) = Finite 0"
  "round_float (2 ^ 128 - 2 ^ 103 - 1) = FLT_MAX"
  "round_float (2 ^ 128 - 2 ^ 103) = PlusInf"
  "fsub FLT_MAX (fneg FLT_MAX) = PlusInf"
  "dsqrt (Finite 25) = Finite 5"
  by code_simp+

subsection \<open>The scan over the centers\<close>

lemma best_so_far_init: "best_so_far D 0 FLT_MAX (- 1)"
  by (simp add: best_so_far_def)

lemma best_so_far_step:
  assumes "best_so_far D j mindist argmin"
  shows "best_so_far D (Suc j) (if flt (D j) mindist then D j else mindist)
           (if flt (D j) mindist then of_nat j else argmin)"
proof (cases "flt (D j) mindist")
  case True
  from assms consider
    (none) "argmin = - 1" "mindist = FLT_MAX" "\<forall>k<j. \<not> flt (D k) FLT_MAX"
  | (some) a where "a < j" "argmin = of_nat a" "mindist = D a" "flt (D a) FLT_MAX"
      "\<forall>k<j. \<not> flt (D k) (D a)" "\<forall>k<a. D k \<noteq> D a"
    unfolding best_so_far_def by blast
  then have new: "flt (D j) FLT_MAX \<and> (\<forall>k<j. \<not> flt (D k) (D j)) \<and> (\<forall>k<j. D k \<noteq> D j)"
  proof cases
    case none
    with True have lt: "flt (D j) FLT_MAX" by simp
    have "\<not> flt (D k) (D j)" if "k < j" for k
      using none(3) that lt flt_trans by blast
    moreover have "D k \<noteq> D j" if "k < j" for k
      using none(3) that lt by auto
    ultimately show ?thesis using lt by blast
  next
    case some
    with True have lt: "flt (D j) (D a)" by simp
    have "\<not> flt (D k) (D j)" if "k < j" for k
      using some(5) that lt flt_trans by blast
    moreover have "D k \<noteq> D j" if "k < j" for k
      using some(5) that lt by auto
    ultimately show ?thesis using lt some(4) flt_trans by blast
  qed
  have "\<forall>k<Suc j. \<not> flt (D k) (D j)"
    using new flt_irrefl by (auto simp: less_Suc_eq)
  with new True show ?thesis
    unfolding best_so_far_def by (intro disjI2 exI [of _ j]) simp
next
  case False
  from assms consider
    (none) "argmin = - 1" "mindist = FLT_MAX" "\<forall>k<j. \<not> flt (D k) FLT_MAX"
  | (some) a where "a < j" "argmin = of_nat a" "mindist = D a" "flt (D a) FLT_MAX"
      "\<forall>k<j. \<not> flt (D k) (D a)" "\<forall>k<a. D k \<noteq> D a"
    unfolding best_so_far_def by blast
  then show ?thesis
  proof cases
    case none
    with False have "\<forall>k<Suc j. \<not> flt (D k) FLT_MAX"
      by (auto simp: less_Suc_eq)
    with none False show ?thesis
      unfolding best_so_far_def by simp
  next
    case some
    with False have "\<forall>k<Suc j. \<not> flt (D k) (D a)"
      by (auto simp: less_Suc_eq)
    with some False show ?thesis
      unfolding best_so_far_def by (intro disjI2 exI [of _ a]) simp
  qed
qed

lemma scan_centers_inv:
  "(\<And>m k. Inv m \<Longrightarrow> k < N \<Longrightarrow>
       fst (distance m frame (centers + k * ndim) ndim ba bb) = D k \<and>
       Inv (snd (distance m frame (centers + k * ndim) ndim ba bb))) \<Longrightarrow>
   Inv m \<Longrightarrow> j \<le> N \<Longrightarrow> best_so_far D j mindist argmin \<Longrightarrow>
   (\<exists>md. best_so_far D N md
      (fst (scan_centers distance frame centers ndim ba bb N j mindist argmin m))) \<and>
   Inv (snd (scan_centers distance frame centers ndim ba bb N j mindist argmin m))"
proof (induction distance frame centers ndim ba bb N j mindist argmin m rule: scan_centers.induct)
  case (1 distance frame centers ndim ba bb N j mindist argmin m)
  note dist = "1.prems"(1)
  show ?case
  proof (cases "j < N")
    case False
    with "1.prems" have "j = N" by simp
    with "1.prems" False show ?thesis
      by (subst (1 2) scan_centers.simps) auto
  next
    case True
    define r where "r = distance m frame (centers + j * ndim) ndim ba bb"
    have d: "fst r = D j" and inv: "Inv (snd r)"
      using dist [OF "1.prems"(2) True] by (simp_all add: r_def)
    have step: "best_so_far D (j + 1) (if flt (D j) mindist then D j else mindist)
                  (if flt (D j) mindist then of_nat j else argmin)"
      using best_so_far_step [OF "1.prems"(4)] by simp
    have le: "j + 1 \<le> N" using True by simp
    show ?thesis
    proof (cases "flt (D j) mindist")
      case lt: True
      have bs: "best_so_far D (j + 1) (fst r) (of_nat j)"
        using step lt d by simp
      have "(\<exists>md. best_so_far D N md
               (fst (scan_centers distance frame centers ndim ba bb N (j + 1) (fst r) (of_nat j) (snd r)))) \<and>
            Inv (snd (scan_centers distance frame centers ndim ba bb N (j + 1) (fst r) (of_nat j) (snd r)))"
        using lt d by (intro "1.IH"(1) [OF True r_def refl _ dist inv le bs]) simp_all
      then show ?thesis
        using True lt d by (subst (1 2) scan_centers.simps) (simp add: r_def Let_def)
    next
      case ge: False
      have bs: "best_so_far D (j + 1) mindist argmin"
        using step ge by simp
      have "(\<exists>md. best_so_far D N md
               (fst (scan_centers distance frame centers ndim ba bb N (j + 1) mindist argmin (snd r)))) \<and>
            Inv (snd (scan_centers distance frame centers ndim ba bb N (j + 1) mindist argmin (snd r)))"
        using ge d by (intro "1.IH"(2) [OF True r_def refl _ dist inv le bs]) simp_all
      then show ?thesis
        using True ge d by (subst (1 2) scan_centers.simps) (simp add: r_def Let_def)
    qed
  qed
qed

lemma best_none:
  assumes "best_so_far D N md r" and "\<forall>k<N. \<not> flt (D k) FLT_MAX"
  shows "r = - 1"
  using assms unfolding best_so_far_def by auto

lemma best_range:
  assumes "best_so_far D N md r" and "k < N" and "flt (D k) FLT_MAX"
  shows "\<exists>a<N. r = of_nat a"
  using assms unfolding best_so_far_def by auto

lemma best_lowest:
  assumes b: "best_so_far D N md r" and j: "j < N" and lt: "flt (D j) FLT_MAX"
    and least: "\<forall>k<N. \<not> flt (D k) (D j)" and first: "\<forall>k<j. D k \<noteq> D j"
  shows "r = of_nat j"
proof -
  from b j lt obtain a where a: "a < N" "r = of_nat a" "flt (D a) FLT_MAX"
      "\<forall>k<N. \<not> flt (D k) (D a)" "\<forall>k<a. D k \<noteq> D a"
    unfolding best_so_far_def by auto
  have "D a = D j"
    using flt_total [OF a(3) lt] a(1,4) j least by blast
  then have "\<not> a < j" and "\<not> j < a"
    using first a(5) by auto
  then show ?thesis using a(2) by simp
qed

subsection \<open>The conversion of \<^verbatim>\<open>argmin\<close> to \<^verbatim>\<open>npy_int32\<close>\<close>


lemma cast_index:
  assumes "j < 2 ^ 31"
  shows "sint (ucast (of_nat j :: 64 word) :: 32 word) = int j"
proof -
  have "(ucast (of_nat j :: 64 word) :: 32 word) = of_nat j"
    by (rule bit_word_eqI) (auto simp add: bit_simps)
  then show ?thesis
    using assms by (simp add: signed_of_nat signed_take_bit_int_eq_self)
qed

subsection \<open>The loop over the frames\<close>

lemma assign_frame_post:
  assumes dist: "\<And>m k. Inv m \<Longrightarrow> k < N \<Longrightarrow>
       fst (distance m (chunk + i * ndim) (centers + k * ndim) ndim ba bb) = D k \<and>
       Inv (snd (distance m (chunk + i * ndim) (centers + k * ndim) ndim ba bb))"
    and inv: "Inv (fmem_of st)"
  shows "Inv (fmem_of (assign_frame distance chunk centers ndim ba bb N i st)) \<and>
         written D N (dtraj (assign_frame distance chunk centers ndim ba bb N i st) i) \<and>
         (\<forall>k. k \<noteq> i \<longrightarrow> dtraj (assign_frame distance chunk centers ndim ba bb N i st) k = dtraj st k) \<and>
         live (assign_frame distance chunk centers ndim ba bb N i st) = live st \<and>
         mallocs (assign_frame distance chunk centers ndim ba bb N i st) = mallocs st"
proof -
  have "(\<exists>md. best_so_far D N md
          (fst (scan_centers distance (chunk + i * ndim) centers ndim ba bb N 0 FLT_MAX (- 1) (fmem_of st)))) \<and>
        Inv (snd (scan_centers distance (chunk + i * ndim) centers ndim ba bb N 0 FLT_MAX (- 1) (fmem_of st)))"
  proof (rule scan_centers_inv [where Inv = Inv and D = D])
    show "fst (distance m (chunk + i * ndim) (centers + k * ndim) ndim ba bb) = D k \<and>
          Inv (snd (distance m (chunk + i * ndim) (centers + k * ndim) ndim ba bb))"
      if "Inv m" "k < N" for m k
      using dist that by blast
  qed (simp_all add: inv best_so_far_init)
  then show ?thesis
    by (auto simp: assign_frame_def Let_def written_def)
qed

lemma run_thread_post:
  assumes dist: "\<And>m i k. Inv m \<Longrightarrow> i < NF \<Longrightarrow> k < N \<Longrightarrow>
       fst (distance m (chunk + i * ndim) (centers + k * ndim) ndim ba bb) = D i k \<and>
       Inv (snd (distance m (chunk + i * ndim) (centers + k * ndim) ndim ba bb))"
  shows "Inv (fmem_of st) \<Longrightarrow> \<forall>i\<in>set frames. i < NF \<Longrightarrow>
         Inv (fmem_of (run_thread distance chunk centers ndim ba bb N frames st)) \<and>
         (\<forall>i\<in>set frames. written (D i) N (dtraj (run_thread distance chunk centers ndim ba bb N frames st) i)) \<and>
         (\<forall>i. i \<notin> set frames \<longrightarrow> dtraj (run_thread distance chunk centers ndim ba bb N frames st) i = dtraj st i) \<and>
         live (run_thread distance chunk centers ndim ba bb N frames st) = live st \<and>
         mallocs (run_thread distance chunk centers ndim ba bb N frames st) = mallocs st"
proof (induction frames arbitrary: st)
  case Nil
  then show ?case by (simp add: run_thread_def)
next
  case (Cons i frames)
  let ?st = "assign_frame distance chunk centers ndim ba bb N i st"
  have i: "i < NF" using Cons.prems(2) by simp
  have one: "Inv (fmem_of ?st) \<and> written (D i) N (dtraj ?st i) \<and>
         (\<forall>k. k \<noteq> i \<longrightarrow> dtraj ?st k = dtraj st k) \<and> live ?st = live st \<and> mallocs ?st = mallocs st"
  proof (rule assign_frame_post [where Inv = Inv and D = "D i"])
    show "fst (distance m (chunk + i * ndim) (centers + k * ndim) ndim ba bb) = D i k \<and>
          Inv (snd (distance m (chunk + i * ndim) (centers + k * ndim) ndim ba bb))"
      if "Inv m" "k < N" for m k
      using dist i that by blast
  qed (rule Cons.prems(1))
  have rest: "Inv (fmem_of (run_thread distance chunk centers ndim ba bb N frames ?st)) \<and>
         (\<forall>k\<in>set frames. written (D k) N (dtraj (run_thread distance chunk centers ndim ba bb N frames ?st) k)) \<and>
         (\<forall>k. k \<notin> set frames \<longrightarrow> dtraj (run_thread distance chunk centers ndim ba bb N frames ?st) k = dtraj ?st k) \<and>
         live (run_thread distance chunk centers ndim ba bb N frames ?st) = live ?st \<and>
         mallocs (run_thread distance chunk centers ndim ba bb N frames ?st) = mallocs ?st"
    using Cons.IH [of ?st] one Cons.prems(2) by simp
  have unfold: "run_thread distance chunk centers ndim ba bb N (i # frames) st =
                run_thread distance chunk centers ndim ba bb N frames ?st"
    by (simp add: run_thread_def)
  show ?case
    unfolding unfold using one rest by (cases "i \<in> set frames") auto
qed

lemma fold_fold_concat: "fold (\<lambda>t. fold f (g t)) ts st = fold f (concat (map g ts)) st"
  by (induction ts arbitrary: st) simp_all

lemma parallel_region_run_thread:
  "parallel_region distance chunk centers ndim ba bb NF N T st =
   run_thread distance chunk centers ndim ba bb N
     (concat (map (iterations_of_thread T NF) [0..<T])) st"
  unfolding parallel_region_def run_thread_def
  by (simp add: fold_fold_concat [symmetric] run_thread_def [abs_def])

lemma set_iterations:
  assumes "0 < T"
  shows "set (concat (map (iterations_of_thread T NF) [0..<T])) = {0..<NF}"
  using assms by (auto simp: iterations_of_thread_def)

lemma parallel_region_post:
  assumes dist: "\<And>m i k. Inv m \<Longrightarrow> i < NF \<Longrightarrow> k < N \<Longrightarrow>
       fst (distance m (chunk + i * ndim) (centers + k * ndim) ndim ba bb) = D i k \<and>
       Inv (snd (distance m (chunk + i * ndim) (centers + k * ndim) ndim ba bb))"
    and inv: "Inv (fmem_of st)" and T: "0 < T"
  shows "Inv (fmem_of (parallel_region distance chunk centers ndim ba bb NF N T st)) \<and>
         (\<forall>i<NF. written (D i) N (dtraj (parallel_region distance chunk centers ndim ba bb NF N T st) i)) \<and>
         (\<forall>i. \<not> i < NF \<longrightarrow> dtraj (parallel_region distance chunk centers ndim ba bb NF N T st) i = dtraj st i) \<and>
         live (parallel_region distance chunk centers ndim ba bb NF N T st) = live st \<and>
         mallocs (parallel_region distance chunk centers ndim ba bb NF N T st) = mallocs st"
proof -
  let ?fs = "concat (map (iterations_of_thread T NF) [0..<T])"
  have s: "set ?fs = {0..<NF}" by (rule set_iterations [OF T])
  have b: "\<forall>i\<in>set ?fs. i < NF" unfolding s by simp
  have "Inv (fmem_of (run_thread distance chunk centers ndim ba bb N ?fs st)) \<and>
         (\<forall>i\<in>set ?fs. written (D i) N (dtraj (run_thread distance chunk centers ndim ba bb N ?fs st) i)) \<and>
         (\<forall>i. i \<notin> set ?fs \<longrightarrow> dtraj (run_thread distance chunk centers ndim ba bb N ?fs st) i = dtraj st i) \<and>
         live (run_thread distance chunk centers ndim ba bb N ?fs st) = live st \<and>
         mallocs (run_thread distance chunk centers ndim ba bb N ?fs st) = mallocs st"
  proof (rule run_thread_post [where Inv = Inv and D = D and NF = NF])
    show "fst (distance m (chunk + i * ndim) (centers + k * ndim) ndim ba bb) = D i k \<and>
          Inv (snd (distance m (chunk + i * ndim) (centers + k * ndim) ndim ba bb))"
      if "Inv m" "i < NF" "k < N" for m i k
      using dist that by blast
  qed (simp_all add: inv b)
  then show ?thesis
    unfolding parallel_region_run_thread s by simp
qed

subsection \<open>Memory\<close>

lemma length_load [simp]: "length (load m p n) = n"
  by (simp add: load_def)

lemma nth_load [simp]: "i < n \<Longrightarrow> load m p n ! i = m (p + i)"
  by (simp add: load_def)

lemma load_eqI: "(\<And>i. i < n \<Longrightarrow> m (p + i) = m' (q + i)) \<Longrightarrow> load m p n = load m' q n"
  by (simp add: load_def)

lemma load_take: "k \<le> n \<Longrightarrow> take k (load m p n) = load m p k"
  by (rule nth_equalityI) simp_all

lemma memcpy_dst: "i < n \<Longrightarrow> memcpy m dst src n (dst + i) = m (src + i)"
  by (simp add: memcpy_def)

lemma memcpy_other: "\<not> (dst \<le> q \<and> q < dst + n) \<Longrightarrow> memcpy m dst src n q = m q"
  by (auto simp: memcpy_def)

lemma store_other: "\<not> (p \<le> q \<and> q < p + length xs) \<Longrightarrow> store m p xs q = m q"
  by (auto simp: store_def)

lemma separate_mono: "separate p n q k \<Longrightarrow> n' \<le> n \<Longrightarrow> k' \<le> k \<Longrightarrow> separate p n' q k'"
  by (auto simp: separate_def)

lemma separate_sym: "separate p n q k \<Longrightarrow> separate q k p n"
  by (auto simp: separate_def)

lemma load_store_same: "load (store m p xs) p k = patch xs (load m p k)"
  by (rule nth_equalityI) (simp_all add: patch_def store_def)

lemma load_store_other:
  "separate p n q k \<Longrightarrow> length xs \<le> n \<Longrightarrow> load (store m p xs) q k = load m q k"
  by (rule load_eqI) (auto simp: store_def separate_def)

subsection \<open>What \<^verbatim>\<open>minRMSD_distance\<close> reads and writes\<close>

lemma minRMSD_distance_outside:
  assumes "\<not> (ba \<le> q \<and> q < ba + n)" and "\<not> (bb \<le> q \<and> q < bb + n)"
  shows "snd (minRMSD_distance g m a b n ba bb) q = m q"
proof -
  have k: "3 * (n div 3) \<le> n" by simp
  have "store m' ba xs q = m' q" if "length xs \<le> 3 * (n div 3)" for m' xs
    using assms(1) that k by (intro store_other) auto
  moreover have "store m' bb xs q = m' q" if "length xs \<le> 3 * (n div 3)" for m' xs
    using assms(2) that k by (intro store_other) auto
  ultimately show ?thesis
    using assms
    by (simp add: minRMSD_distance_def inplace_center_and_trace_atom_major_def Let_def
          memcpy_other)
qed

lemma minRMSD_distance_effect:
  assumes ab: "separate ba n bb n"
    and "separate ba n a n" and "separate ba n b n"
    and "separate bb n a n" and "separate bb n b n"
  shows "fst (minRMSD_distance g m a b n ba bb) = minRMSD_of g n (load m a n) (load m b n) \<and>
         load (snd (minRMSD_distance g m a b n ba bb)) ba (3 * (n div 3)) = centered g n (load m a n) \<and>
         load (snd (minRMSD_distance g m a b n ba bb)) bb (3 * (n div 3)) = centered g n (load m b n)"
proof -
  let ?k = "3 * (n div 3)"
  let ?m1 = "memcpy m ba a n"
  let ?m2 = "memcpy ?m1 bb b n"
  have k: "?k \<le> n" by simp
  have la: "load ?m2 ba ?k = take ?k (load m a n)"
    unfolding load_take [OF k]
    using assms k by (intro load_eqI) (auto simp: memcpy_def separate_def)
  have lb: "load ?m2 bb ?k = take ?k (load m b n)"
    unfolding load_take [OF k]
    using assms k by (intro load_eqI) (auto simp: memcpy_def separate_def)
  let ?ca = "center_and_trace g (n div 3) (load ?m2 ba ?k)"
  let ?m3 = "store ?m2 ba (take ?k (fst ?ca))"
  have tk: "length (take ?k xs) \<le> n" for xs :: "cfloat list"
    using k by (simp add: min.coboundedI2)
  have lb3: "load ?m3 bb ?k = load ?m2 bb ?k"
    using separate_mono [OF ab le_refl k] tk by (rule load_store_other)
  let ?cb = "center_and_trace g (n div 3) (load ?m3 bb ?k)"
  let ?m4 = "store ?m3 bb (take ?k (fst ?cb))"
  have ba': "separate bb n ba ?k"
    using separate_mono [OF separate_sym [OF ab] le_refl k] .
  have "load ?m4 ba ?k = load ?m3 ba ?k"
    using ba' tk by (rule load_store_other)
  then have la4: "load ?m4 ba ?k = patch (take ?k (fst ?ca)) (load ?m2 ba ?k)"
    by (simp add: load_store_same)
  have lb4: "load ?m4 bb ?k = patch (take ?k (fst ?cb)) (load ?m3 bb ?k)"
    by (simp add: load_store_same)
  show ?thesis
    apply (simp only: minRMSD_distance_def inplace_center_and_trace_atom_major_def Let_def
             fst_conv snd_conv)
    apply (simp only: la4 lb4)
    apply (simp only: lb3)
    apply (simp only: la lb minRMSD_of_def centered_def)
    done
qed

lemma minRMSD_distance_value:
  assumes "separate ba n bb n"
    and "separate ba n a n" and "separate ba n b n"
    and "separate bb n a n" and "separate bb n b n"
  shows "fst (minRMSD_distance g m a b n ba bb) = minRMSD_of g n (load m a n) (load m b n)"
  using minRMSD_distance_effect [OF assms] by blast

subsection \<open>The output of a successful call\<close>

lemma malloc_frame [simp]:
  "fmem_of (snd (malloc st)) = fmem_of st" "dtraj (snd (malloc st)) = dtraj st"
  by (simp_all add: malloc_def split: list.splits)

lemma free_frame [simp]:
  "fmem_of (free p st) = fmem_of st" "dtraj (free p st) = dtraj st" "mallocs (free p st) = mallocs st"
  by (simp_all add: free_def)

lemma row_within:
  fixes i n d :: nat
  assumes "i < n"
  shows "i * d + d \<le> n * d"
proof -
  have "Suc i * d \<le> n * d" using assms by (intro mult_le_mono1) simp
  then show ?thesis by simp
qed

lemma separate_row:
  assumes "separate p n q (N * d)" and "i < N"
  shows "separate p n (q + i * d) d"
  using assms(1) row_within [OF assms(2), of d] by (auto simp: separate_def)

lemma euclidean_written:
  assumes T: "0 < T" and i: "i < NF"
  shows "written (\<lambda>k. fst (euclidean_distance (fmem_of st) (chunk + i * ndim) (centers + k * ndim) ndim ba bb)) N
           (dtraj (parallel_region euclidean_distance chunk centers ndim ba bb NF N T st) i)"
proof -
  let ?D = "\<lambda>i k. fst (euclidean_distance (fmem_of st) (chunk + i * ndim) (centers + k * ndim) ndim ba bb)"
  have "(\<lambda>m. m = fmem_of st) (fmem_of (parallel_region euclidean_distance chunk centers ndim ba bb NF N T st)) \<and>
         (\<forall>i<NF. written (?D i) N (dtraj (parallel_region euclidean_distance chunk centers ndim ba bb NF N T st) i)) \<and>
         (\<forall>i. \<not> i < NF \<longrightarrow> dtraj (parallel_region euclidean_distance chunk centers ndim ba bb NF N T st) i = dtraj st i) \<and>
         live (parallel_region euclidean_distance chunk centers ndim ba bb NF N T st) = live st \<and>
         mallocs (parallel_region euclidean_distance chunk centers ndim ba bb NF N T st) = mallocs st"
  proof (rule parallel_region_post [where Inv = "\<lambda>m. m = fmem_of st" and D = ?D])
    show "fst (euclidean_distance m (chunk + i * ndim) (centers + k * ndim) ndim ba bb) = ?D i k \<and>
          snd (euclidean_distance m (chunk + i * ndim) (centers + k * ndim) ndim ba bb) = fmem_of st"
      if "m = fmem_of st" for m i k
      using that by (simp add: euclidean_distance_def)
  qed (simp_all add: T)
  then show ?thesis using i by blast
qed

lemma minRMSD_written:
  assumes T: "0 < T" and i: "i < NF"
    and ab: "separate ba ndim bb ndim"
    and a1: "separate ba ndim chunk (NF * ndim)" and a2: "separate ba ndim centers (N * ndim)"
    and b1: "separate bb ndim chunk (NF * ndim)" and b2: "separate bb ndim centers (N * ndim)"
  shows "written (\<lambda>k. fst (minRMSD_distance g (fmem_of st) (chunk + i * ndim) (centers + k * ndim) ndim ba bb)) N
           (dtraj (parallel_region (minRMSD_distance g) chunk centers ndim ba bb NF N T st) i)"
proof -
  let ?D = "\<lambda>i k. fst (minRMSD_distance g (fmem_of st) (chunk + i * ndim) (centers + k * ndim) ndim ba bb)"
  let ?Inv = "\<lambda>m. \<forall>q. \<not> (ba \<le> q \<and> q < ba + ndim) \<and> \<not> (bb \<le> q \<and> q < bb + ndim) \<longrightarrow> m q = fmem_of st q"
  let ?P = "parallel_region (minRMSD_distance g) chunk centers ndim ba bb NF N T st"
  have "?Inv (fmem_of ?P) \<and>
         (\<forall>i<NF. written (?D i) N (dtraj ?P i)) \<and>
         (\<forall>i. \<not> i < NF \<longrightarrow> dtraj ?P i = dtraj st i) \<and>
         live ?P = live st \<and> mallocs ?P = mallocs st"
  proof (rule parallel_region_post [where Inv = ?Inv and D = ?D])
    show "fst (minRMSD_distance g m (chunk + i * ndim) (centers + k * ndim) ndim ba bb) = ?D i k \<and>
          ?Inv (snd (minRMSD_distance g m (chunk + i * ndim) (centers + k * ndim) ndim ba bb))"
      if inv: "?Inv m" and i: "i < NF" and k: "k < N" for m i k
    proof
      have sa: "separate ba ndim (chunk + i * ndim) ndim" "separate bb ndim (chunk + i * ndim) ndim"
        using separate_row [OF a1 i] separate_row [OF b1 i] by simp_all
      have sb: "separate ba ndim (centers + k * ndim) ndim" "separate bb ndim (centers + k * ndim) ndim"
        using separate_row [OF a2 k] separate_row [OF b2 k] by simp_all
      have la: "load m (chunk + i * ndim) ndim = load (fmem_of st) (chunk + i * ndim) ndim"
        using inv sa by (intro load_eqI) (auto simp: separate_def)
      have lb: "load m (centers + k * ndim) ndim = load (fmem_of st) (centers + k * ndim) ndim"
        using inv sb by (intro load_eqI) (auto simp: separate_def)
      show "fst (minRMSD_distance g m (chunk + i * ndim) (centers + k * ndim) ndim ba bb) = ?D i k"
        by (simp only: minRMSD_distance_value [OF ab sa(1) sb(1) sa(2) sb(2)] la lb)
      show "?Inv (snd (minRMSD_distance g m (chunk + i * ndim) (centers + k * ndim) ndim ba bb))"
        using inv by (simp add: minRMSD_distance_outside)
    qed
  qed (simp_all add: T)
  then show ?thesis using i by blast
qed

lemma frame_distance_euclidean:
  "frame_distance g ''euclidean'' st chunk centers ndim i =
   (\<lambda>k. fst (euclidean_distance (fmem_of st) (chunk + i * ndim) (centers + k * ndim) ndim NULL NULL))"
  by (rule ext) (simp add: frame_distance_def)

lemma frame_distance_minRMSD:
  "frame_distance g ''minRMSD'' st chunk centers ndim i =
   (\<lambda>k. fst (minRMSD_distance g (fmem_of st) (chunk + i * ndim) (centers + k * ndim) ndim
          (fst (malloc st)) (fst (malloc (snd (malloc st))))))"
  by (rule ext) (simp add: frame_distance_def)

lemma c_assign_written:
  assumes ok: "fst (c_assign g chunk centers metric NF N ndim T st) = ASSIGN_SUCCESS"
    and sep: "metric = ''minRMSD'' \<longrightarrow> scratch_separate chunk centers NF N ndim st"
    and T: "0 < T" and i: "i < NF"
  shows "written (frame_distance g metric st chunk centers ndim i) N
           (dtraj (snd (c_assign g chunk centers metric NF N ndim T st)) i)"
proof (cases "metric = ''euclidean''")
  case True
  then show ?thesis
    using euclidean_written [OF T i, of st chunk ndim centers NULL NULL N]
    by (simp add: c_assign_def frame_distance_euclidean Let_def)
next
  case False
  with ok have m: "metric = ''minRMSD''"
    by (auto simp: c_assign_def Let_def split: if_splits)
  let ?ba = "fst (malloc st)" and ?bb = "fst (malloc (snd (malloc st)))"
  from ok m have nn: "?ba \<noteq> NULL" "?bb \<noteq> NULL"
    by (auto simp: c_assign_def Let_def split: if_splits)
  from sep m have s: "separate ?ba ndim ?bb ndim"
      "separate ?ba ndim chunk (NF * ndim)" "separate ?ba ndim centers (N * ndim)"
      "separate ?bb ndim chunk (NF * ndim)" "separate ?bb ndim centers (N * ndim)"
    by (simp_all add: scratch_separate_def Let_def)
  show ?thesis
    using minRMSD_written [OF T i s, of g "snd (malloc (snd (malloc st)))"] m nn
    by (simp add: c_assign_def frame_distance_minRMSD Let_def)
qed

subsection \<open>NaN in \<^verbatim>\<open>euclidean_distance\<close>\<close>

lemma fsub_NaN [simp]: "fsub x NaN = NaN"
  by (cases x) simp_all

lemma fmul_NaN [simp]: "fmul x NaN = NaN"
  by (cases x) simp_all

lemma dadd_NaN [simp]: "dadd x NaN = NaN"
  by (cases x) simp_all



subsection \<open>The loop of \<^verbatim>\<open>euclidean_distance\<close> as a sum\<close>

lemma euclidean_loop_foldl:
  "i \<le> n \<Longrightarrow>
   euclidean_loop m a b n i s =
   foldl dadd s (map (\<lambda>k. f2d (fmul (fsub (m (a + k)) (m (b + k))) (fsub (m (a + k)) (m (b + k))))) [i..<n])"
proof (induction m a b n i s rule: euclidean_loop.induct)
  case (1 m a b n i s)
  show ?case
  proof (cases "i < n")
    case True
    then have "[i..<n] = i # [i + 1..<n]"
      by (simp add: upt_conv_Cons)
    then show ?thesis
      using True "1.IH" [OF True] by (subst euclidean_loop.simps) simp
  next
    case False
    then show ?thesis
      using "1.prems" by (subst euclidean_loop.simps) simp
  qed
qed

lemma zip_load:
  "zip (load m a n) (load m b n) = map (\<lambda>k. (m (a + k), m (b + k))) [0..<n]"
  by (simp add: load_def zip_map_map zip_same_conv_map)

subsection \<open>The buffers after \<^verbatim>\<open>minRMSD_distance\<close>\<close>

lemma patch_full: "length xs = length ys \<Longrightarrow> patch xs ys = xs"
  by (rule nth_equalityI) (simp_all add: patch_def)

subsection \<open>The number of threads under the Euclidean metric\<close>

lemma written_unique:
  assumes "written D N v" and "written D N v'"
  shows "v = v'"
proof -
  from assms obtain md r md' r' where b: "best_so_far D N md r" and v: "v = ucast r"
    and b': "best_so_far D N md' r'" and v': "v' = ucast r'"
    unfolding written_def by blast
  have "r = r'"
  proof (cases "\<forall>k<N. \<not> flt (D k) FLT_MAX")
    case True
    then show ?thesis using best_none [OF b] best_none [OF b'] by simp
  next
    case False
    with b' obtain a where a: "a < N" "r' = of_nat a" "flt (D a) FLT_MAX"
      "\<forall>k<N. \<not> flt (D k) (D a)" "\<forall>k<a. D k \<noteq> D a"
      unfolding best_so_far_def by auto
    show ?thesis
      using best_lowest [OF b a(1,3,4,5)] a(2) by simp
  qed
  then show ?thesis using v v' by simp
qed

lemma euclidean_worker_count:
  assumes "0 < n_threads" and "0 < n_threads'" and "i < N_frames"
    and "N_frames < 2 ^ 31" and "N_centers < 2 ^ 31"
  shows "dtraj (snd (c_assign g chunk centers ''euclidean'' N_frames N_centers ndim n_threads st)) i =
         dtraj (snd (c_assign g chunk centers ''euclidean'' N_frames N_centers ndim n_threads' st)) i"
proof -
  have ok: "fst (c_assign g chunk centers ''euclidean'' N_frames N_centers ndim T st) = ASSIGN_SUCCESS" for T
    by (simp add: c_assign_def Let_def)
  have "written (frame_distance g ''euclidean'' st chunk centers ndim i) N_centers
          (dtraj (snd (c_assign g chunk centers ''euclidean'' N_frames N_centers ndim T st)) i)"
    if "0 < T" for T
    by (rule c_assign_written [OF ok _ that assms(3)]) simp
  from this [OF assms(1)] this [OF assms(2)] show ?thesis
    by (rule written_unique)
qed

subsection \<open>Allocation and the two halves of \<^verbatim>\<open>minRMSD_distance\<close>\<close>

lemma assign_frame_mallocs [simp]:
  "mallocs (assign_frame distance chunk centers ndim ba bb N i st) = mallocs st"
  by (simp add: assign_frame_def Let_def)

lemma run_thread_mallocs [simp]:
  "mallocs (run_thread distance chunk centers ndim ba bb N frames st) = mallocs st"
  unfolding run_thread_def by (induction frames arbitrary: st) simp_all

lemma parallel_region_mallocs [simp]:
  "mallocs (parallel_region distance chunk centers ndim ba bb NF N T st) = mallocs st"
  by (simp add: parallel_region_run_thread)

lemma mallocs_malloc: "mallocs (snd (malloc st)) = tl (mallocs st)"
  by (simp add: malloc_def split: list.splits)

lemma minRMSD_distance_halves:
  "minRMSD_distance g m a b n ba bb = minRMSD_compute g (minRMSD_copy m a b n ba bb) n ba bb"
  by (simp add: minRMSD_distance_def minRMSD_compute_def minRMSD_copy_def Let_def)

subsection \<open>A scan in which no distance is below the current minimum\<close>




section \<open>The claims\<close>

text \<open>
  In the theorems below a call is described by its arguments and the state \<open>st\<close> it
  starts in; \<open>frame_distance g metric st chunk centers ndim i j\<close> is the distance of frame
  \<open>i\<close> to center \<open>j\<close>. The loop counters of \<^verbatim>\<open>c_assign\<close> are \<^verbatim>\<open>int\<close>s, so the numbers
  of frames and of centers are taken below \<open>2\<^sup>3\<^sup>1\<close> in what is stated about the output.
  What a successful call has written is stated for the executions the model of the
  parallel region covers: any number of threads under \<^verbatim>\<open>"euclidean"\<close>, one thread under
  \<^verbatim>\<open>"minRMSD"\<close>, with buffers that \<^verbatim>\<open>malloc\<close> placed apart from the arrays. What
  several threads do to the shared buffers is the matter of C3 and C4.
\<close>

text \<open>
  C1 (amended). The scan goes through the centers in increasing order and takes a new
  best center only on a strictly smaller distance. So on a successful call with fewer
  than \<open>2\<^sup>3\<^sup>1\<close> frames and centers, if center
  \<open>j\<close> is at a distance from frame \<open>i\<close> that is below \<^verbatim>\<open>FLT_MAX\<close>, no center is
  nearer, and no center before \<open>j\<close> is at the same distance, then \<open>j\<close> is the index
  written for frame \<open>i\<close>: among centers at equal minimal distance the lowest index wins.
  As stated in the specification, without the bound by \<^verbatim>\<open>FLT_MAX\<close>, the law fails: two
  centers both at distance \<open>+\<infinity>\<close> from a frame leave \<open>-1\<close> in the output
  (the counterexample: the frame \<^verbatim>\<open>FLT_MAX\<close>, both centers \<^verbatim>\<open>-FLT_MAX\<close>, whose
  difference overflows). The witness is the example of the specification: dimension 1,
  the frame 0, the centers 1 and -1, both at distance 1, and the output 0.
\<close>

theorem tie_break_lowest_index:
  assumes ok: "fst (c_assign g chunk centers metric N_frames N_centers ndim n_threads st) = ASSIGN_SUCCESS"
    and one: "metric = ''minRMSD'' \<longrightarrow>
              n_threads = 1 \<and> scratch_separate chunk centers N_frames N_centers ndim st"
    and T: "0 < n_threads" and NF: "N_frames < 2 ^ 31" and N: "N_centers < 2 ^ 31"
    and i: "i < N_frames"
    and j: "j < N_centers"
    and below: "flt (frame_distance g metric st chunk centers ndim i j) FLT_MAX"
    and least: "\<forall>k<N_centers. \<not> flt (frame_distance g metric st chunk centers ndim i k)
                                    (frame_distance g metric st chunk centers ndim i j)"
    and first: "\<forall>k<j. frame_distance g metric st chunk centers ndim i k \<noteq>
                        frame_distance g metric st chunk centers ndim i j"
  shows "sint (dtraj (snd (c_assign g chunk centers metric N_frames N_centers ndim n_threads st)) i) = int j"
proof -
  have sep: "metric = ''minRMSD'' \<longrightarrow> scratch_separate chunk centers N_frames N_centers ndim st"
    using one by blast
  from c_assign_written [OF ok sep T i]
  obtain md r where b: "best_so_far (frame_distance g metric st chunk centers ndim i) N_centers md r"
    and v: "dtraj (snd (c_assign g chunk centers metric N_frames N_centers ndim n_threads st)) i = ucast r"
    unfolding written_def by blast
  have "r = of_nat j"
    by (rule best_lowest [OF b j below least first])
  then show ?thesis
    using v cast_index [of j] j N by simp
qed

theorem tie_break_lowest_index_witness:
  "frame_distance still_geometry ''euclidean'' (call_state 10 [Finite 0] 20 [Finite 1, Finite (- 1)] []) 10 20 1 0 0 = Finite 1 \<and>
   frame_distance still_geometry ''euclidean'' (call_state 10 [Finite 0] 20 [Finite 1, Finite (- 1)] []) 10 20 1 0 1 = Finite 1 \<and>
   sint (dtraj (snd (c_assign still_geometry 10 20 ''euclidean'' 1 2 1 1
                       (call_state 10 [Finite 0] 20 [Finite 1, Finite (- 1)] []))) 0) = 0"
proof -
  let ?st = "call_state 10 [Finite 0] 20 [Finite 1, Finite (- 1)] []"
  have d0: "frame_distance still_geometry ''euclidean'' ?st 10 20 1 0 0 = Finite 1"
    by code_simp
  have d1: "frame_distance still_geometry ''euclidean'' ?st 10 20 1 0 1 = Finite 1"
    by code_simp
  have ok: "fst (c_assign still_geometry 10 20 ''euclidean'' 1 2 1 1 ?st) = ASSIGN_SUCCESS"
    by code_simp
  have sep: "''euclidean'' = ''minRMSD'' \<longrightarrow> (1::nat) = 1 \<and> scratch_separate 10 20 1 2 1 ?st"
    by simp
  have below: "flt (frame_distance still_geometry ''euclidean'' ?st 10 20 1 0 0) FLT_MAX"
    unfolding d0 by code_simp
  have least: "\<forall>k<2. \<not> flt (frame_distance still_geometry ''euclidean'' ?st 10 20 1 0 k)
                             (frame_distance still_geometry ''euclidean'' ?st 10 20 1 0 0)"
    using d0 d1 by (auto simp: less_2_cases_iff)
  have "sint (dtraj (snd (c_assign still_geometry 10 20 ''euclidean'' 1 2 1 1 ?st)) 0) = int 0"
    by (rule tie_break_lowest_index [OF ok sep _ _ _ _ _ below least]) simp_all
  then show ?thesis using d0 d1 by simp
qed

theorem tie_break_counterexample:
  "frame_distance still_geometry ''euclidean'' (call_state 10 [FLT_MAX] 20 [fneg FLT_MAX, fneg FLT_MAX] []) 10 20 1 0 0 = PlusInf \<and>
   frame_distance still_geometry ''euclidean'' (call_state 10 [FLT_MAX] 20 [fneg FLT_MAX, fneg FLT_MAX] []) 10 20 1 0 1 = PlusInf \<and>
   fst (c_assign still_geometry 10 20 ''euclidean'' 1 2 1 1
          (call_state 10 [FLT_MAX] 20 [fneg FLT_MAX, fneg FLT_MAX] [])) = ASSIGN_SUCCESS \<and>
   sint (dtraj (snd (c_assign still_geometry 10 20 ''euclidean'' 1 2 1 1
                       (call_state 10 [FLT_MAX] 20 [fneg FLT_MAX, fneg FLT_MAX] []))) 0) = - 1"
  by code_simp

text \<open>
  C2 (amended). On a successful call with fewer than \<open>2\<^sup>3\<^sup>1\<close> frames and centers,
  every frame \<open>i\<close> below \<open>N_frames\<close> that has a
  center at a distance strictly below \<^verbatim>\<open>FLT_MAX\<close> gets an index in
  \<open>[0, N_centers)\<close>. As stated in the specification, for every input with at least one
  center and one dimension, the invariant fails: a frame holding a NaN is at distance NaN
  from every center and gets \<open>-1\<close> (the counterexample). The witness is a call under
  \<^verbatim>\<open>"minRMSD"\<close>.
\<close>

theorem output_in_range:
  assumes ok: "fst (c_assign g chunk centers metric N_frames N_centers ndim n_threads st) = ASSIGN_SUCCESS"
    and one: "metric = ''minRMSD'' \<longrightarrow>
              n_threads = 1 \<and> scratch_separate chunk centers N_frames N_centers ndim st"
    and T: "0 < n_threads" and NF: "N_frames < 2 ^ 31" and N: "N_centers < 2 ^ 31"
    and i: "i < N_frames"
    and j: "j < N_centers"
    and below: "flt (frame_distance g metric st chunk centers ndim i j) FLT_MAX"
  shows "0 \<le> sint (dtraj (snd (c_assign g chunk centers metric N_frames N_centers ndim n_threads st)) i) \<and>
         sint (dtraj (snd (c_assign g chunk centers metric N_frames N_centers ndim n_threads st)) i) < int N_centers"
proof -
  have sep: "metric = ''minRMSD'' \<longrightarrow> scratch_separate chunk centers N_frames N_centers ndim st"
    using one by blast
  from c_assign_written [OF ok sep T i]
  obtain md r where b: "best_so_far (frame_distance g metric st chunk centers ndim i) N_centers md r"
    and v: "dtraj (snd (c_assign g chunk centers metric N_frames N_centers ndim n_threads st)) i = ucast r"
    unfolding written_def by blast
  from best_range [OF b j below] obtain a where a: "a < N_centers" "r = of_nat a"
    by blast
  then show ?thesis
    using v cast_index [of a] N by simp
qed

theorem output_in_range_witness:
  "fst (c_assign still_geometry 10 20 ''minRMSD'' 1 2 3 1
          (call_state 10 [Finite 1, Finite 2, Finite 3] 20
             [Finite 4, Finite 5, Finite 6, Finite 1, Finite 2, Finite 3] [70, 80])) = ASSIGN_SUCCESS \<and>
   0 \<le> sint (dtraj (snd (c_assign still_geometry 10 20 ''minRMSD'' 1 2 3 1
          (call_state 10 [Finite 1, Finite 2, Finite 3] 20
             [Finite 4, Finite 5, Finite 6, Finite 1, Finite 2, Finite 3] [70, 80]))) 0) \<and>
   sint (dtraj (snd (c_assign still_geometry 10 20 ''minRMSD'' 1 2 3 1
          (call_state 10 [Finite 1, Finite 2, Finite 3] 20
             [Finite 4, Finite 5, Finite 6, Finite 1, Finite 2, Finite 3] [70, 80]))) 0) < 2"
proof -
  let ?st = "call_state 10 [Finite 1, Finite 2, Finite 3] 20
               [Finite 4, Finite 5, Finite 6, Finite 1, Finite 2, Finite 3] [70, 80]"
  have ok: "fst (c_assign still_geometry 10 20 ''minRMSD'' 1 2 3 1 ?st) = ASSIGN_SUCCESS"
    by code_simp
  have s: "scratch_separate 10 20 1 2 3 ?st"
    by code_simp
  have one: "''minRMSD'' = ''minRMSD'' \<longrightarrow> (1::nat) = 1 \<and> scratch_separate 10 20 1 2 3 ?st"
    using s by simp
  have below: "flt (frame_distance still_geometry ''minRMSD'' ?st 10 20 3 0 1) FLT_MAX"
    by code_simp
  have "0 \<le> sint (dtraj (snd (c_assign still_geometry 10 20 ''minRMSD'' 1 2 3 1 ?st)) 0) \<and>
        sint (dtraj (snd (c_assign still_geometry 10 20 ''minRMSD'' 1 2 3 1 ?st)) 0) < int 2"
    by (rule output_in_range [OF ok one _ _ _ _ _ below]) simp_all
  then show ?thesis using ok by simp
qed

theorem output_in_range_counterexample:
  "fst (c_assign still_geometry 10 20 ''euclidean'' 1 1 1 1
          (call_state 10 [NaN] 20 [Finite 0] [])) = ASSIGN_SUCCESS \<and>
   \<not> (0 \<le> sint (dtraj (snd (c_assign still_geometry 10 20 ''euclidean'' 1 1 1 1
                              (call_state 10 [NaN] 20 [Finite 0] []))) 0) \<and>
      sint (dtraj (snd (c_assign still_geometry 10 20 ''euclidean'' 1 1 1 1
                              (call_state 10 [NaN] 20 [Finite 0] []))) 0) < 1)"
  by code_simp

text \<open>
  C9 (amended). With a single center and fewer than \<open>2\<^sup>3\<^sup>1\<close> frames, a successful
  call writes 0 for every frame whose
  distance to that center is strictly below \<^verbatim>\<open>FLT_MAX\<close>. It does not do so whatever
  the frames hold: for the frame \<^verbatim>\<open>FLT_MAX\<close> and the center \<^verbatim>\<open>-FLT_MAX\<close> the
  difference overflows, the distance is \<open>+\<infinity>\<close> and the output is \<open>-1\<close>
  (the counterexample).
\<close>

theorem single_center:
  assumes ok: "fst (c_assign g chunk centers metric N_frames 1 ndim n_threads st) = ASSIGN_SUCCESS"
    and one: "metric = ''minRMSD'' \<longrightarrow>
              n_threads = 1 \<and> scratch_separate chunk centers N_frames 1 ndim st"
    and T: "0 < n_threads" and NF: "N_frames < 2 ^ 31" and i: "i < N_frames"
    and below: "flt (frame_distance g metric st chunk centers ndim i 0) FLT_MAX"
  shows "dtraj (snd (c_assign g chunk centers metric N_frames 1 ndim n_threads st)) i = 0"
proof -
  have sep: "metric = ''minRMSD'' \<longrightarrow> scratch_separate chunk centers N_frames 1 ndim st"
    using one by blast
  from c_assign_written [OF ok sep T i]
  obtain md r where b: "best_so_far (frame_distance g metric st chunk centers ndim i) 1 md r"
    and v: "dtraj (snd (c_assign g chunk centers metric N_frames 1 ndim n_threads st)) i = ucast r"
    unfolding written_def by blast
  from best_range [OF b _ below] have "r = 0" by simp
  then show ?thesis using v by simp
qed

theorem single_center_witness:
  "dtraj (call_state 10 [Finite 7, Finite (- 2), Finite (1 / 2)] 20 [Finite 1, Finite 2, Finite 3] []) 0 = 99 \<and>
   dtraj (snd (c_assign still_geometry 10 20 ''euclidean'' 1 1 3 4
          (call_state 10 [Finite 7, Finite (- 2), Finite (1 / 2)] 20 [Finite 1, Finite 2, Finite 3] []))) 0 = 0"
proof -
  let ?st = "call_state 10 [Finite 7, Finite (- 2), Finite (1 / 2)] 20 [Finite 1, Finite 2, Finite 3] []"
  have ok: "fst (c_assign still_geometry 10 20 ''euclidean'' 1 1 3 4 ?st) = ASSIGN_SUCCESS"
    by code_simp
  have sep: "''euclidean'' = ''minRMSD'' \<longrightarrow> (4::nat) = 1 \<and> scratch_separate 10 20 1 1 3 ?st"
    by simp
  have below: "flt (frame_distance still_geometry ''euclidean'' ?st 10 20 3 0 0) FLT_MAX"
    by code_simp
  have "dtraj (snd (c_assign still_geometry 10 20 ''euclidean'' 1 1 3 4 ?st)) 0 = 0"
    by (rule single_center [OF ok sep _ _ _ below]) simp_all
  moreover have "dtraj ?st 0 = 99" by (simp add: call_state_def)
  ultimately show ?thesis by simp
qed

theorem single_center_counterexample:
  "fst (c_assign still_geometry 10 20 ''euclidean'' 1 1 1 1
          (call_state 10 [FLT_MAX] 20 [fneg FLT_MAX] [])) = ASSIGN_SUCCESS \<and>
   dtraj (snd (c_assign still_geometry 10 20 ''euclidean'' 1 1 1 1
          (call_state 10 [FLT_MAX] 20 [fneg FLT_MAX] []))) 0 \<noteq> 0"
  by code_simp



text \<open>
  C5. \<^verbatim>\<open>euclidean_distance\<close> returns, for the vectors of length \<open>n\<close> at \<open>a\<close> and \<open>b\<close>,
  the square root of the sum of the squared differences of their components, the sum
  accumulated in \<^verbatim>\<open>double\<close> and the root narrowed to \<^verbatim>\<open>float\<close>, and leaves the memory
  as it was. For the frame \<open>[0, 0]\<close> and the centers \<open>[0, 0]\<close> and \<open>[3, 4]\<close> the
  distances are 0 and 5, and the index assigned is 0.
\<close>

theorem euclidean_distance_is_spec:
  "euclidean_distance m a b n buffer_a buffer_b = (spec_euclidean (load m a n) (load m b n), m) \<and>
   spec_euclidean [Finite 0, Finite 0] [Finite 0, Finite 0] = Finite 0 \<and>
   spec_euclidean [Finite 0, Finite 0] [Finite 3, Finite 4] = Finite 5 \<and>
   fst (c_assign still_geometry 10 20 ''euclidean'' 1 2 2 1
          (call_state 10 [Finite 0, Finite 0] 20 [Finite 0, Finite 0, Finite 3, Finite 4] [])) = ASSIGN_SUCCESS \<and>
   dtraj (snd (c_assign still_geometry 10 20 ''euclidean'' 1 2 2 1
          (call_state 10 [Finite 0, Finite 0] 20 [Finite 0, Finite 0, Finite 3, Finite 4] []))) 0 = 0"
proof -
  have "euclidean_distance m a b n buffer_a buffer_b = (spec_euclidean (load m a n) (load m b n), m)"
    by (simp add: euclidean_distance_def spec_euclidean_def sum_double_def euclidean_loop_foldl
          zip_load comp_def)
  moreover have "spec_euclidean [Finite 0, Finite 0] [Finite 0, Finite 0] = Finite 0"
    by code_simp
  moreover have "spec_euclidean [Finite 0, Finite 0] [Finite 3, Finite 4] = Finite 5"
    by code_simp
  moreover have "fst (c_assign still_geometry 10 20 ''euclidean'' 1 2 2 1
          (call_state 10 [Finite 0, Finite 0] 20 [Finite 0, Finite 0, Finite 3, Finite 4] [])) = ASSIGN_SUCCESS"
    by code_simp
  moreover have "dtraj (snd (c_assign still_geometry 10 20 ''euclidean'' 1 2 2 1
          (call_state 10 [Finite 0, Finite 0] 20 [Finite 0, Finite 0, Finite 3, Finite 4] []))) 0 = 0"
    by code_simp
  ultimately show ?thesis by blast
qed

text \<open>
  C7. A metric name that is neither \<^verbatim>\<open>"euclidean"\<close> nor \<^verbatim>\<open>"minRMSD"\<close>, compared as
  \<^verbatim>\<open>strcmp\<close> does, makes \<^verbatim>\<open>c_assign\<close> return \<^verbatim>\<open>ASSIGN_ERR_INVALID_METRIC\<close> with the
  state as it was: \<^verbatim>\<open>malloc\<close> is not called, no frame is processed, and the output
  array is not written.
\<close>

theorem invalid_metric:
  assumes "metric \<noteq> ''euclidean''" and "metric \<noteq> ''minRMSD''"
  shows "c_assign g chunk centers metric N_frames N_centers ndim n_threads st =
         (ASSIGN_ERR_INVALID_METRIC, st)"
  using assms by (simp add: c_assign_def free_def)

theorem invalid_metric_witness:
  "c_assign still_geometry 10 20 ''unknown'' 1 2 1 8 (call_state 10 [Finite 0] 20 [Finite 1, Finite (- 1)] [30, 40]) =
     (ASSIGN_ERR_INVALID_METRIC, call_state 10 [Finite 0] 20 [Finite 1, Finite (- 1)] [30, 40]) \<and>
   c_assign still_geometry 10 20 ''Euclidean'' 1 2 1 8 (call_state 10 [Finite 0] 20 [Finite 1, Finite (- 1)] [30, 40]) =
     (ASSIGN_ERR_INVALID_METRIC, call_state 10 [Finite 0] 20 [Finite 1, Finite (- 1)] [30, 40])"
proof -
  have "c_assign still_geometry 10 20 ''unknown'' 1 2 1 8 (call_state 10 [Finite 0] 20 [Finite 1, Finite (- 1)] [30, 40]) =
     (ASSIGN_ERR_INVALID_METRIC, call_state 10 [Finite 0] 20 [Finite 1, Finite (- 1)] [30, 40])"
    by (rule invalid_metric) simp_all
  moreover have "c_assign still_geometry 10 20 ''Euclidean'' 1 2 1 8 (call_state 10 [Finite 0] 20 [Finite 1, Finite (- 1)] [30, 40]) =
     (ASSIGN_ERR_INVALID_METRIC, call_state 10 [Finite 0] 20 [Finite 1, Finite (- 1)] [30, 40])"
    by (rule invalid_metric) simp_all
  ultimately show ?thesis by blast
qed

text \<open>
  C8. Under \<^verbatim>\<open>"minRMSD"\<close>, when one of the two calls of \<^verbatim>\<open>malloc\<close> fails, \<^verbatim>\<open>c_assign\<close>
  returns \<^verbatim>\<open>ASSIGN_ERR_NO_MEMORY\<close>; the output array and the \<^verbatim>\<open>float\<close> memory are as
  before the call (no frame was processed), and so is the set of allocated blocks: a
  buffer that was allocated has been freed. The blocks \<^verbatim>\<open>malloc\<close> returns are taken
  to be new ones.
\<close>

theorem out_of_memory:
  assumes m: "metric = ''minRMSD''"
    and fail: "fst (malloc st) = NULL \<or> fst (malloc (snd (malloc st))) = NULL"
    and fresh: "fst (malloc st) \<notin> live st" "fst (malloc (snd (malloc st))) \<notin> live st"
  shows "fst (c_assign g chunk centers metric N_frames N_centers ndim n_threads st) = ASSIGN_ERR_NO_MEMORY \<and>
         dtraj (snd (c_assign g chunk centers metric N_frames N_centers ndim n_threads st)) = dtraj st \<and>
         fmem_of (snd (c_assign g chunk centers metric N_frames N_centers ndim n_threads st)) = fmem_of st \<and>
         live (snd (c_assign g chunk centers metric N_frames N_centers ndim n_threads st)) = live st"
proof -
  let ?ma = "malloc st" and ?mb = "malloc (snd (malloc st))"
  have c: "c_assign g chunk centers metric N_frames N_centers ndim n_threads st =
           (ASSIGN_ERR_NO_MEMORY, free (fst ?mb) (free (fst ?ma) (snd ?mb)))"
    using m fail by (simp add: c_assign_def Let_def)
  have la: "live (snd ?ma) = (if fst ?ma = NULL then live st else insert (fst ?ma) (live st))"
    by (simp add: malloc_def NULL_def split: list.splits)
  have lb: "live (snd ?mb) = (if fst ?mb = NULL then live (snd ?ma) else insert (fst ?mb) (live (snd ?ma)))"
    by (simp add: malloc_def NULL_def split: list.splits)
  have "live (free (fst ?mb) (free (fst ?ma) (snd ?mb))) = live st"
    using fresh by (auto simp: free_def la lb)
  then show ?thesis
    unfolding c by simp
qed

theorem out_of_memory_witness:
  "fst (c_assign still_geometry 10 20 ''minRMSD'' 1 2 3 8
          (call_state 10 [Finite 0, Finite 0, Finite 0] 20 [Finite 1, Finite 1, Finite 1, Finite 2, Finite 2, Finite 2] [30, NULL]))
     = ASSIGN_ERR_NO_MEMORY \<and>
   dtraj (snd (c_assign still_geometry 10 20 ''minRMSD'' 1 2 3 8
          (call_state 10 [Finite 0, Finite 0, Finite 0] 20 [Finite 1, Finite 1, Finite 1, Finite 2, Finite 2, Finite 2] [30, NULL])))
     = dtraj (call_state 10 [Finite 0, Finite 0, Finite 0] 20 [Finite 1, Finite 1, Finite 1, Finite 2, Finite 2, Finite 2] [30, NULL]) \<and>
   live (snd (malloc (call_state 10 [Finite 0, Finite 0, Finite 0] 20 [Finite 1, Finite 1, Finite 1, Finite 2, Finite 2, Finite 2] [30, NULL])))
     = {30} \<and>
   live (snd (c_assign still_geometry 10 20 ''minRMSD'' 1 2 3 8
          (call_state 10 [Finite 0, Finite 0, Finite 0] 20 [Finite 1, Finite 1, Finite 1, Finite 2, Finite 2, Finite 2] [30, NULL])))
     = {}"
proof -
  let ?st = "call_state 10 [Finite 0, Finite 0, Finite 0] 20 [Finite 1, Finite 1, Finite 1, Finite 2, Finite 2, Finite 2] [30, NULL]"
  have fail: "fst (malloc ?st) = NULL \<or> fst (malloc (snd (malloc ?st))) = NULL"
    by (simp add: malloc_def call_state_def)
  have fresh: "fst (malloc ?st) \<notin> live ?st" "fst (malloc (snd (malloc ?st))) \<notin> live ?st"
    by (simp_all add: call_state_def)
  have "fst (c_assign still_geometry 10 20 ''minRMSD'' 1 2 3 8 ?st) = ASSIGN_ERR_NO_MEMORY \<and>
        dtraj (snd (c_assign still_geometry 10 20 ''minRMSD'' 1 2 3 8 ?st)) = dtraj ?st \<and>
        fmem_of (snd (c_assign still_geometry 10 20 ''minRMSD'' 1 2 3 8 ?st)) = fmem_of ?st \<and>
        live (snd (c_assign still_geometry 10 20 ''minRMSD'' 1 2 3 8 ?st)) = live ?st"
    by (rule out_of_memory [OF refl fail fresh])
  moreover have "live ?st = {}" by (simp add: call_state_def)
  moreover have "live (snd (malloc ?st)) = {30}"
    by (simp add: malloc_def call_state_def NULL_def)
  ultimately show ?thesis by simp
qed

text \<open>
  C6. For \<open>n\<close> a multiple of 3 and buffers that overlap neither each other nor the
  arguments, \<^verbatim>\<open>minRMSD_distance\<close> copies \<open>a\<close> and \<open>b\<close> into the buffers, centers each
  copy there, and returns the square root of the deviation that the geometry library
  computes from the two centered copies of \<open>n div 3\<close> atoms and their traces; \<open>a\<close> and
  \<open>b\<close> are as before, the buffers hold the centered copies. The centering is taken to
  leave as many coordinates as it is given. What the two library functions compute is
  outside \<^verbatim>\<open>clustering.c\<close>: they are the parameter \<open>g\<close>.
\<close>

theorem minRMSD_distance_is_spec:
  assumes n3: "n mod 3 = 0"
    and sep: "separate buffer_a n buffer_b n"
      "separate buffer_a n a n" "separate buffer_a n b n"
      "separate buffer_b n a n" "separate buffer_b n b n"
    and len: "length (fst (center_and_trace g (n div 3) (load m a n))) = n"
      "length (fst (center_and_trace g (n div 3) (load m b n))) = n"
  shows "fst (minRMSD_distance g m a b n buffer_a buffer_b) = spec_minRMSD g (load m a n) (load m b n) \<and>
         load (snd (minRMSD_distance g m a b n buffer_a buffer_b)) a n = load m a n \<and>
         load (snd (minRMSD_distance g m a b n buffer_a buffer_b)) b n = load m b n \<and>
         load (snd (minRMSD_distance g m a b n buffer_a buffer_b)) buffer_a n =
           fst (center_and_trace g (n div 3) (load m a n)) \<and>
         load (snd (minRMSD_distance g m a b n buffer_a buffer_b)) buffer_b n =
           fst (center_and_trace g (n div 3) (load m b n))"
proof -
  have k: "3 * (n div 3) = n" using n3 by presburger
  have ca: "centered g n (load m a n) = fst (center_and_trace g (n div 3) (load m a n))"
    using len(1) by (simp add: centered_def k patch_full)
  have cb: "centered g n (load m b n) = fst (center_and_trace g (n div 3) (load m b n))"
    using len(2) by (simp add: centered_def k patch_full)
  have eff: "fst (minRMSD_distance g m a b n buffer_a buffer_b) = minRMSD_of g n (load m a n) (load m b n) \<and>
         load (snd (minRMSD_distance g m a b n buffer_a buffer_b)) buffer_a (3 * (n div 3)) = centered g n (load m a n) \<and>
         load (snd (minRMSD_distance g m a b n buffer_a buffer_b)) buffer_b (3 * (n div 3)) = centered g n (load m b n)"
    by (rule minRMSD_distance_effect [OF sep])
  have v: "minRMSD_of g n (load m a n) (load m b n) = spec_minRMSD g (load m a n) (load m b n)"
    by (simp add: minRMSD_of_def spec_minRMSD_def Let_def ca cb k)
  have ua: "load (snd (minRMSD_distance g m a b n buffer_a buffer_b)) a n = load m a n"
    using sep(2,4) by (intro load_eqI minRMSD_distance_outside) (auto simp: separate_def)
  have ub: "load (snd (minRMSD_distance g m a b n buffer_a buffer_b)) b n = load m b n"
    using sep(3,5) by (intro load_eqI minRMSD_distance_outside) (auto simp: separate_def)
  show ?thesis
    using eff v ua ub by (simp add: k ca cb)
qed

theorem minRMSD_distance_is_spec_witness:
  "fst (minRMSD_distance still_geometry
          (store (store (\<lambda>p. Finite 0) 10 [Finite 1, Finite 2, Finite 3]) 20 [Finite 4, Finite 5, Finite 6])
          10 20 3 30 40) = Finite 2 \<and>
   load (snd (minRMSD_distance still_geometry
          (store (store (\<lambda>p. Finite 0) 10 [Finite 1, Finite 2, Finite 3]) 20 [Finite 4, Finite 5, Finite 6])
          10 20 3 30 40)) 10 3 = [Finite 1, Finite 2, Finite 3] \<and>
   load (snd (minRMSD_distance still_geometry
          (store (store (\<lambda>p. Finite 0) 10 [Finite 1, Finite 2, Finite 3]) 20 [Finite 4, Finite 5, Finite 6])
          10 20 3 30 40)) 30 3 = [Finite 1, Finite 2, Finite 3] \<and>
   load (snd (minRMSD_distance still_geometry
          (store (store (\<lambda>p. Finite 0) 10 [Finite 1, Finite 2, Finite 3]) 20 [Finite 4, Finite 5, Finite 6])
          10 20 3 30 40)) 40 3 = [Finite 4, Finite 5, Finite 6]"
proof -
  let ?m = "store (store (\<lambda>p. Finite 0) 10 [Finite 1, Finite 2, Finite 3]) 20 [Finite 4, Finite 5, Finite 6]"
  have la: "load ?m 10 3 = [Finite 1, Finite 2, Finite 3]" by code_simp
  have lb: "load ?m 20 3 = [Finite 4, Finite 5, Finite 6]" by code_simp
  have ca: "fst (center_and_trace still_geometry (3 div 3) (load ?m 10 3)) = [Finite 1, Finite 2, Finite 3]"
    unfolding la by (simp add: still_geometry_def)
  have cb: "fst (center_and_trace still_geometry (3 div 3) (load ?m 20 3)) = [Finite 4, Finite 5, Finite 6]"
    unfolding lb by (simp add: still_geometry_def)
  have v: "spec_minRMSD still_geometry [Finite 1, Finite 2, Finite 3] [Finite 4, Finite 5, Finite 6] = Finite 2"
    by code_simp
  have "fst (minRMSD_distance still_geometry ?m 10 20 3 30 40) = spec_minRMSD still_geometry (load ?m 10 3) (load ?m 20 3) \<and>
         load (snd (minRMSD_distance still_geometry ?m 10 20 3 30 40)) 10 3 = load ?m 10 3 \<and>
         load (snd (minRMSD_distance still_geometry ?m 10 20 3 30 40)) 20 3 = load ?m 20 3 \<and>
         load (snd (minRMSD_distance still_geometry ?m 10 20 3 30 40)) 30 3 =
           fst (center_and_trace still_geometry (3 div 3) (load ?m 10 3)) \<and>
         load (snd (minRMSD_distance still_geometry ?m 10 20 3 30 40)) 40 3 =
           fst (center_and_trace still_geometry (3 div 3) (load ?m 20 3))"
  proof (rule minRMSD_distance_is_spec)
    show "length (fst (center_and_trace still_geometry (3 div 3) (load ?m 10 3))) = 3"
      unfolding ca by simp
    show "length (fst (center_and_trace still_geometry (3 div 3) (load ?m 20 3))) = 3"
      unfolding cb by simp
  qed (simp_all add: separate_def)
  then show ?thesis
    using ca cb by (simp add: la lb v)
qed

text \<open>
  C3 (the code does not do this). \<^verbatim>\<open>c_assign\<close> calls \<^verbatim>\<open>malloc\<close> twice, before the
  parallel region, whatever the number of threads: there is one pair of buffers for the
  call, not one per thread. \<^verbatim>\<open>buffer_a\<close> and \<^verbatim>\<open>buffer_b\<close> are not in the
  \<^verbatim>\<open>private\<close> clause, so every thread hands this pair to \<^verbatim>\<open>minRMSD_distance\<close>. With
  two threads and 11 frames, thread 0 runs the iterations 0 to 9 and thread 1 the
  iteration 10; the iteration 0 of the one and the iteration 10 of the other both copy
  their frame into the cells of the same buffer (here at 70).
\<close>

theorem scratch_shared_by_threads:
  "mallocs (snd (c_assign g chunk centers ''minRMSD'' N_frames N_centers ndim n_threads st)) =
     tl (tl (mallocs st)) \<and>
   iterations_of_thread 2 11 0 = [0, 1, 2, 3, 4, 5, 6, 7, 8, 9] \<and>
   iterations_of_thread 2 11 1 = [10] \<and>
   load (fmem_of (assign_frame (minRMSD_distance still_geometry) 10 60 3 70 80 1 0
           (call_state 10 (map (\<lambda>i. Finite (of_nat (i div 3 + 1))) [0..<33]) 60 [Finite 0, Finite 0, Finite 0] []))) 70 3
     = [Finite 1, Finite 1, Finite 1] \<and>
   load (fmem_of (assign_frame (minRMSD_distance still_geometry) 10 60 3 70 80 1 10
           (call_state 10 (map (\<lambda>i. Finite (of_nat (i div 3 + 1))) [0..<33]) 60 [Finite 0, Finite 0, Finite 0] []))) 70 3
     = [Finite 11, Finite 11, Finite 11]"
proof -
  have "mallocs (snd (c_assign g chunk centers ''minRMSD'' N_frames N_centers ndim n_threads st)) =
     tl (tl (mallocs st))"
    by (simp add: c_assign_def Let_def mallocs_malloc)
  moreover have "iterations_of_thread 2 11 0 = [0, 1, 2, 3, 4, 5, 6, 7, 8, 9]"
    by code_simp
  moreover have "iterations_of_thread 2 11 1 = [10]"
    by code_simp
  moreover have "load (fmem_of (assign_frame (minRMSD_distance still_geometry) 10 60 3 70 80 1 0
           (call_state 10 (map (\<lambda>i. Finite (of_nat (i div 3 + 1))) [0..<33]) 60 [Finite 0, Finite 0, Finite 0] []))) 70 3
     = [Finite 1, Finite 1, Finite 1]"
    by code_simp
  moreover have "load (fmem_of (assign_frame (minRMSD_distance still_geometry) 10 60 3 70 80 1 10
           (call_state 10 (map (\<lambda>i. Finite (of_nat (i div 3 + 1))) [0..<33]) 60 [Finite 0, Finite 0, Finite 0] []))) 70 3
     = [Finite 11, Finite 11, Finite 11]"
    by code_simp
  ultimately show ?thesis by blast
qed

text \<open>
  C4 (the code does not do this under \<^verbatim>\<open>"minRMSD"\<close> with several threads). Because
  the threads share the two buffers, the copies of one thread can land between the
  copies of another and its computation; that thread then gets the distance of the other
  thread's arguments \<open>a'\<close>, \<open>b'\<close>, not of its own \<open>a\<close>, \<open>b\<close>. In the witness the own
  distance is 0 and the distance returned is 2. So the result of a call with several
  threads depends on how the threads interleave. (The lemma
  \<open>euclidean_worker_count\<close> above is the part of the claim that holds: under
  \<^verbatim>\<open>"euclidean"\<close>, which writes no shared memory, the output does not depend on the
  number of threads.)
\<close>

theorem interleaved_copy_changes_distance:
  assumes sep: "separate ba n bb n"
      "separate ba n a' n" "separate ba n b' n"
      "separate bb n a' n" "separate bb n b' n"
  shows "fst (minRMSD_compute g (minRMSD_copy (minRMSD_copy m a b n ba bb) a' b' n ba bb) n ba bb) =
         fst (minRMSD_distance g m a' b' n ba bb)"
proof -
  let ?m1 = "minRMSD_copy m a b n ba bb"
  have la: "load ?m1 a' n = load m a' n"
    using sep(2,4) by (intro load_eqI) (auto simp: minRMSD_copy_def memcpy_def separate_def)
  have lb: "load ?m1 b' n = load m b' n"
    using sep(3,5) by (intro load_eqI) (auto simp: minRMSD_copy_def memcpy_def separate_def)
  have "fst (minRMSD_compute g (minRMSD_copy ?m1 a' b' n ba bb) n ba bb) =
        fst (minRMSD_distance g ?m1 a' b' n ba bb)"
    by (simp add: minRMSD_distance_halves)
  also have "\<dots> = minRMSD_of g n (load ?m1 a' n) (load ?m1 b' n)"
    by (rule minRMSD_distance_value [OF sep])
  also have "\<dots> = fst (minRMSD_distance g m a' b' n ba bb)"
    unfolding la lb by (rule minRMSD_distance_value [OF sep, symmetric])
  finally show ?thesis .
qed

theorem interleaved_copy_changes_distance_witness:
  "fst (minRMSD_distance still_geometry
          (store (store (\<lambda>p. Finite 0) 10 [Finite 1, Finite 2, Finite 3]) 20 [Finite 4, Finite 5, Finite 6])
          10 10 3 30 40) = Finite 0 \<and>
   fst (minRMSD_compute still_geometry
          (minRMSD_copy
             (minRMSD_copy
                (store (store (\<lambda>p. Finite 0) 10 [Finite 1, Finite 2, Finite 3]) 20 [Finite 4, Finite 5, Finite 6])
                10 10 3 30 40)
             10 20 3 30 40)
          3 30 40) = Finite 2"
proof -
  let ?m = "store (store (\<lambda>p. Finite 0) 10 [Finite 1, Finite 2, Finite 3]) 20 [Finite 4, Finite 5, Finite 6]"
  have own: "fst (minRMSD_distance still_geometry ?m 10 10 3 30 40) = Finite 0"
    by code_simp
  have other: "fst (minRMSD_distance still_geometry ?m 10 20 3 30 40) = Finite 2"
    by code_simp
  have "fst (minRMSD_compute still_geometry (minRMSD_copy (minRMSD_copy ?m 10 10 3 30 40) 10 20 3 30 40) 3 30 40) =
        fst (minRMSD_distance still_geometry ?m 10 20 3 30 40)"
    by (rule interleaved_copy_changes_distance) (simp_all add: separate_def)
  then show ?thesis using own other by simp
qed

end
